theory Spec2Isabelle
  imports Complex_Main
begin

section \<open>Layer modules of \<open>minitorch/modules_basic.py\<close>\<close>

text \<open>
  The file defines four layer classes (\<open>Embedding\<close>, \<open>Dropout\<close>, \<open>Linear\<close>,
  \<open>LayerNorm1d\<close>) as glue over a tensor library that is not part of the file. The
  development has three parts: a model of the tensor and numpy operators the file calls,
  the embedding of the four classes (constructors and \<open>forward\<close> methods), and the theorems.

  Conventions of the model.
  \<^item> Scalars are real numbers: the arithmetic is exact, and the float32 rounding of the
    program (\<open>astype(np.float32)\<close>) is the identity.
  \<^item> A tensor is its shape together with its entries in row-major order. Strides, the
    autograd history and the \<open>requires_grad\<close> flag do not influence the values computed
    by \<open>forward\<close> and are left out; every backend computes the same values, so a tensor
    carries no backend.
  \<^item> An exception is a value \<open>Inl e\<close> of the result type \<open>error + 'a\<close>.
  \<^item> Tensor arithmetic raises nothing on a zero divisor or on the power of a negative
    base: the program yields \<open>inf\<close> or \<open>NaN\<close> there, values the real numbers do not
    have. No statement below depends on the value that division and \<open>powr\<close> take in
    HOL at such arguments. Division of Python floats (in a constructor) does raise.
  \<^item> The global numpy random generator is an explicit state that is passed in and returned.
  \<^item> A method returns the object \<open>self\<close> as it is after the call, next to its result.
\<close>

subsection \<open>Exceptions\<close>

datatype error = ValueError | ZeroDivisionError | AssertionError | IndexingError
  | IndexError | AttributeError

definition thenE :: "error + 'a \<Rightarrow> ('a \<Rightarrow> error + 'b) \<Rightarrow> error + 'b" where
  "thenE r f = (case r of Inl e \<Rightarrow> Inl e | Inr v \<Rightarrow> f v)"

fun mapE :: "('a \<Rightarrow> error + 'b) \<Rightarrow> 'a list \<Rightarrow> error + 'b list" where
  "mapE f [] = Inr []"
| "mapE f (x # xs) = thenE (f x) (\<lambda>y. thenE (mapE f xs) (\<lambda>ys. Inr (y # ys)))"

subsection \<open>Tensors\<close>

record tensor =
  shape :: "nat list"
  storage :: "real list"

text \<open>A tensor is well formed when it holds one entry for every index of its shape.\<close>

definition valid_tensor :: "tensor \<Rightarrow> bool" where
  "valid_tensor t = (length (storage t) = prod_list (shape t))"

text \<open>
  Modelled from the spec: the index arithmetic of the tensor library (module
  \<open>tensor_data\<close>, not in the source). \<open>index_to_position\<close> is the row-major position
  of a multi-index, \<open>to_index\<close> the multi-index of a position.
\<close>

fun index_to_position :: "nat list \<Rightarrow> nat list \<Rightarrow> nat" where
  "index_to_position (i # idx) (d # ds) = i * prod_list ds + index_to_position idx ds"
| "index_to_position _ _ = 0"

fun to_index :: "nat \<Rightarrow> nat list \<Rightarrow> nat list" where
  "to_index ordinal [] = []"
| "to_index ordinal (d # ds) = (ordinal div prod_list ds) mod d # to_index ordinal ds"

text \<open>
  Modelled from the spec: broadcasting arithmetic, with the rule of numpy. Two shapes
  are aligned at their last dimension; two aligned dimensions are compatible when they
  are equal or one of them is 1; the result takes the other size, and the dimension of
  size 1 is read at index 0. Incompatible shapes raise.
\<close>

fun broadcast_rev :: "nat list \<Rightarrow> nat list \<Rightarrow> error + nat list" where
  "broadcast_rev [] bs = Inr bs"
| "broadcast_rev (a # as) [] = Inr (a # as)"
| "broadcast_rev (a # as) (b # bs) =
     (if a = b \<or> b = 1 then thenE (broadcast_rev as bs) (\<lambda>cs. Inr (a # cs))
      else if a = 1 then thenE (broadcast_rev as bs) (\<lambda>cs. Inr (b # cs))
      else Inl IndexingError)"

definition shape_broadcast :: "nat list \<Rightarrow> nat list \<Rightarrow> error + nat list" where
  "shape_broadcast shape1 shape2 =
     thenE (broadcast_rev (rev shape1) (rev shape2)) (\<lambda>c_rev. Inr (rev c_rev))"

definition broadcast_index :: "nat list \<Rightarrow> nat list \<Rightarrow> nat list \<Rightarrow> nat list" where
  "broadcast_index big_index big_shape sh =
     map2 (\<lambda>s i. if s = 1 then 0 else i) sh (drop (length big_shape - length sh) big_index)"

definition tensor_map :: "(real \<Rightarrow> real) \<Rightarrow> tensor \<Rightarrow> tensor" where
  "tensor_map f a = a\<lparr>storage := map f (storage a)\<rparr>"

definition tensor_zip :: "(real \<Rightarrow> real \<Rightarrow> real) \<Rightarrow> tensor \<Rightarrow> tensor \<Rightarrow> error + tensor" where
  "tensor_zip f a b =
     thenE (shape_broadcast (shape a) (shape b)) (\<lambda>sh.
       Inr \<lparr>shape = sh,
            storage = map (\<lambda>ordinal.
                f (storage a ! index_to_position
                     (broadcast_index (to_index ordinal sh) sh (shape a)) (shape a))
                  (storage b ! index_to_position
                     (broadcast_index (to_index ordinal sh) sh (shape b)) (shape b)))
              [0..<prod_list sh]\<rparr>)"

text \<open>
  Modelled from the spec: reduction. \<open>add_reduce a d\<close> sums along dimension \<open>d\<close>
  and keeps that dimension with size 1; a dimension the tensor does not have raises.
\<close>

definition add_reduce :: "tensor \<Rightarrow> nat \<Rightarrow> error + tensor" where
  "add_reduce a d =
     (if d < length (shape a) then
        Inr \<lparr>shape = (shape a)[d := 1],
             storage = map (\<lambda>ordinal.
                 sum_list (map (\<lambda>j. storage a !
                     index_to_position ((to_index ordinal ((shape a)[d := 1]))[d := j]) (shape a))
                   [0..<shape a ! d]))
               [0..<prod_list ((shape a)[d := 1])]\<rparr>
      else Inl IndexError)"

text \<open>
  Modelled from the spec: matrix multiply, for two matrices (the only case the file
  uses: both operands of every product in it are matrices). The inner dimensions must
  agree. An operand of another rank is not covered and is reported as an error.
\<close>

definition matrix_multiply :: "tensor \<Rightarrow> tensor \<Rightarrow> error + tensor" where
  "matrix_multiply a b =
     (if length (shape a) = 2 \<and> length (shape b) = 2 then
        (let m = shape a ! 0; k = shape a ! 1; n = shape b ! 1 in
         if k = shape b ! 0 then
           Inr \<lparr>shape = [m, n],
                storage = map (\<lambda>ordinal.
                    sum_list (map (\<lambda>l. storage a ! ((ordinal div n) * k + l)
                                        * storage b ! (l * n + ordinal mod n)) [0..<k]))
                  [0..<m * n]\<rparr>
         else Inl AssertionError)
      else Inl IndexError)"

text \<open>
  Modelled from the spec: reshape. \<open>view\<close> keeps the entries and replaces the
  shape; the new shape must have as many indices as the tensor has entries.
\<close>

definition view :: "tensor \<Rightarrow> nat list \<Rightarrow> error + tensor" where
  "view a sh = (if length (storage a) = prod_list sh then Inr (a\<lparr>shape := sh\<rparr>)
                else Inl AssertionError)"

text \<open>
  Modelled from the spec: the operators of class \<open>Tensor\<close> that the file applies.
  An operator between two tensors broadcasts; an operator between a tensor and a Python
  number acts on every entry.
\<close>

definition add :: "tensor \<Rightarrow> tensor \<Rightarrow> error + tensor" where
  "add a b = tensor_zip (\<lambda>u v. u + v) a b"

definition sub :: "tensor \<Rightarrow> tensor \<Rightarrow> error + tensor" where
  "sub a b = tensor_zip (\<lambda>u v. u - v) a b"

definition mul :: "tensor \<Rightarrow> tensor \<Rightarrow> error + tensor" where
  "mul a b = tensor_zip (\<lambda>u v. u * v) a b"

definition truediv :: "tensor \<Rightarrow> tensor \<Rightarrow> error + tensor" where
  "truediv a b = tensor_zip (\<lambda>u v. u / v) a b"

definition add_scalar :: "tensor \<Rightarrow> real \<Rightarrow> tensor" where
  "add_scalar a c = tensor_map (\<lambda>u. u + c) a"

definition truediv_scalar :: "tensor \<Rightarrow> real \<Rightarrow> tensor" where
  "truediv_scalar a c = tensor_map (\<lambda>u. u / c) a"

definition pow_scalar :: "tensor \<Rightarrow> real \<Rightarrow> tensor" where
  "pow_scalar a c = tensor_map (\<lambda>u. u powr c) a"

definition mean :: "tensor \<Rightarrow> nat \<Rightarrow> error + tensor" where
  "mean a d = thenE (add_reduce a d) (\<lambda>s. Inr (truediv_scalar s (real (shape a ! d))))"

text \<open>
  Modelled from the spec: the \<open>one_hot\<close> helper (module \<open>nn\<close>). The entries of the
  input are converted to integers as \<open>astype(int)\<close> does (towards zero) and select rows
  of the identity matrix the way numpy indexes an axis of length \<open>num_classes\<close>: an
  index below 0 counts from the end, an index outside \<open>[-num_classes, num_classes)\<close>
  raises. The result has the input's shape with \<open>num_classes\<close> appended.
\<close>

definition astype_int :: "real \<Rightarrow> int" where
  "astype_int v = (if 0 \<le> v then \<lfloor>v\<rfloor> else \<lceil>v\<rceil>)"

definition np_index :: "nat \<Rightarrow> int \<Rightarrow> error + nat" where
  "np_index n i =
     (if 0 \<le> i \<and> i < int n then Inr (nat i)
      else if - int n \<le> i \<and> i < 0 then Inr (nat (int n + i))
      else Inl IndexError)"

definition one_hot :: "tensor \<Rightarrow> nat \<Rightarrow> error + tensor" where
  "one_hot input num_classes =
     thenE (mapE (\<lambda>v. np_index num_classes (astype_int v)) (storage input)) (\<lambda>idx.
       Inr \<lparr>shape = shape input @ [num_classes],
            storage = map (\<lambda>ordinal.
                if ordinal mod num_classes = idx ! (ordinal div num_classes) then 1 else 0)
              [0..<length idx * num_classes]\<rparr>)"

subsection \<open>The numpy calls\<close>

text \<open>
  A numpy array is modelled like a tensor (shape and row-major entries). Modelled from
  the spec: \<open>tensor_from_numpy\<close> (module \<open>tensor_functions\<close>, not in the source)
  makes a tensor of an array and keeps shape and entries.

  The global random generator is the pair of streams of the variates it will produce
  next: standard normal ones and uniform ones on \<open>[0, 1)\<close>. \<open>draw\<close> takes the
  next \<open>k\<close> variates of a stream. \<open>randn\<close> returns normal variates,
  \<open>uniform low high\<close> scales uniform ones to \<open>[low, high)\<close>, and
  \<open>binomial n p\<close> counts, for every entry, how many of \<open>n\<close> uniform variates
  fall below \<open>p\<close> (for \<open>n = 1\<close> the entry is 0 or 1). A shape with a negative
  dimension raises \<open>ValueError\<close>, and so does \<open>binomial\<close> for a probability
  outside \<open>[0, 1]\<close>.
\<close>

record rng =
  normal_stream :: "nat \<Rightarrow> real"
  uniform_stream :: "nat \<Rightarrow> real"

definition draw :: "(nat \<Rightarrow> real) \<Rightarrow> nat \<Rightarrow> real list \<times> (nat \<Rightarrow> real)" where
  "draw s k = (map s [0..<k], \<lambda>i. s (i + k))"

definition np_shape :: "int list \<Rightarrow> error + nat list" where
  "np_shape dims = (if list_all (\<lambda>d. 0 \<le> d) dims then Inr (map nat dims) else Inl ValueError)"

definition randn :: "int list \<Rightarrow> rng \<Rightarrow> error + (tensor \<times> rng)" where
  "randn dims g =
     thenE (np_shape dims) (\<lambda>sh.
       Inr (\<lparr>shape = sh, storage = fst (draw (normal_stream g) (prod_list sh))\<rparr>,
            g\<lparr>normal_stream := snd (draw (normal_stream g) (prod_list sh))\<rparr>))"

definition uniform :: "real \<Rightarrow> real \<Rightarrow> int list \<Rightarrow> rng \<Rightarrow> error + (tensor \<times> rng)" where
  "uniform low high dims g =
     thenE (np_shape dims) (\<lambda>sh.
       Inr (\<lparr>shape = sh,
             storage = map (\<lambda>u. low + (high - low) * u)
                         (fst (draw (uniform_stream g) (prod_list sh)))\<rparr>,
            g\<lparr>uniform_stream := snd (draw (uniform_stream g) (prod_list sh))\<rparr>))"

definition binomial :: "nat \<Rightarrow> real \<Rightarrow> nat list \<Rightarrow> rng \<Rightarrow> error + (tensor \<times> rng)" where
  "binomial n p sh g =
     (if p < 0 \<or> 1 < p then Inl ValueError
      else Inr (\<lparr>shape = sh,
                 storage = map (\<lambda>us. real (length (filter (\<lambda>u. u < p) us)))
                             (map (\<lambda>i. map (\<lambda>j. uniform_stream g (i * n + j)) [0..<n])
                                  [0..<prod_list sh])\<rparr>,
                g\<lparr>uniform_stream := snd (draw (uniform_stream g) (prod_list sh * n))\<rparr>))"

definition np_ones :: "int list \<Rightarrow> error + tensor" where
  "np_ones dims = thenE (np_shape dims) (\<lambda>sh.
     Inr \<lparr>shape = sh, storage = replicate (prod_list sh) 1\<rparr>)"

definition np_zeros :: "int list \<Rightarrow> error + tensor" where
  "np_zeros dims = thenE (np_shape dims) (\<lambda>sh.
     Inr \<lparr>shape = sh, storage = replicate (prod_list sh) 0\<rparr>)"

definition tensor_from_numpy :: "tensor \<Rightarrow> tensor" where
  "tensor_from_numpy ls = ls"

text \<open>\<open>math.sqrt\<close> raises on a negative argument.\<close>

definition math_sqrt :: "real \<Rightarrow> error + real" where
  "math_sqrt v = (if v < 0 then Inl ValueError else Inr (sqrt v))"

text \<open>Division of Python floats raises on a zero divisor.\<close>

definition float_div :: "real \<Rightarrow> real \<Rightarrow> error + real" where
  "float_div a b = (if b = 0 then Inl ZeroDivisionError else Inr (a / b))"


section \<open>The module classes\<close>

text \<open>
  Modelled from the spec: the base class \<open>Module\<close> contributes the flag
  \<open>training\<close>, which is set at construction and read by \<open>Dropout.forward\<close>. A
  \<open>Parameter\<close> is modelled by the tensor it holds (its \<open>value\<close>). The backend
  handle is opaque to the file: it is stored and passed on, never inspected, so its
  type is a parameter \<open>'b\<close> of the model.

  The field names are those of the source; \<open>backend\<close>, \<open>weights\<close> and \<open>bias\<close>
  occur in several classes and carry the class name as a suffix. A constructor takes
  its sizes as Python integers and returns either an exception or the module built
  together with the random generator after the draws; a size field of a module built
  is a natural number, since the constructor raises on a negative size.
\<close>

record Module =
  training :: bool

subsection \<open>Embedding\<close>

record 'b Embedding = Module +
  backend_Embedding :: 'b
  num_embeddings :: nat
  embedding_dim :: nat
  weights_Embedding :: tensor

definition Embedding_init :: "int \<Rightarrow> int \<Rightarrow> 'b \<Rightarrow> rng \<Rightarrow> error + ('b Embedding \<times> rng)" where
  "Embedding_init num_embeddings' embedding_dim' backend g =
     thenE (randn [num_embeddings', embedding_dim'] g) (\<lambda>(vals, g').
       Inr (\<lparr>training = True,
             backend_Embedding = backend,
             num_embeddings = nat num_embeddings',
             embedding_dim = nat embedding_dim',
             weights_Embedding = tensor_from_numpy vals\<rparr>, g'))"

definition Embedding_forward :: "'b Embedding \<Rightarrow> tensor \<Rightarrow> (error + tensor) \<times> 'b Embedding" where
  "Embedding_forward self x =
     (case shape x of
        [bs, seq_len] \<Rightarrow>
          thenE (one_hot x (num_embeddings self)) (\<lambda>x_one_hot.
          thenE (view x_one_hot [bs * seq_len, num_embeddings self]) (\<lambda>x_flat.
          thenE (matrix_multiply x_flat (weights_Embedding self)) (\<lambda>out_flat.
          view out_flat [bs, seq_len, embedding_dim self])))
      | _ \<Rightarrow> Inl ValueError,
      self)"

subsection \<open>Dropout\<close>

record Dropout = Module +
  p_dropout :: real

definition Dropout_init :: "real \<Rightarrow> Dropout" where
  "Dropout_init p_dropout' = \<lparr>training = True, p_dropout = p_dropout'\<rparr>"

definition Dropout_forward :: "Dropout \<Rightarrow> tensor \<Rightarrow> rng \<Rightarrow> (error + tensor) \<times> Dropout \<times> rng" where
  "Dropout_forward self x g =
     (if \<not> training self \<or> p_dropout self = 0 then (Inr x, self, g)
      else
        (case binomial 1 (1 - p_dropout self) (shape x) g of
           Inl e \<Rightarrow> (Inl e, self, g)
         | Inr (mask_np, g') \<Rightarrow>
             (thenE (mul x (tensor_from_numpy mask_np)) (\<lambda>xm.
                Inr (truediv_scalar xm (1 - p_dropout self))),
              self, g')))"

subsection \<open>Linear\<close>

record 'b Linear = Module +
  out_size :: nat
  backend_Linear :: 'b
  in_size :: nat
  use_bias :: bool
  weights_Linear :: tensor
  bias_Linear :: "tensor option"

definition Linear_init :: "int \<Rightarrow> int \<Rightarrow> bool \<Rightarrow> 'b \<Rightarrow> rng \<Rightarrow> error + ('b Linear \<times> rng)" where
  "Linear_init in_size' out_size' bias backend g =
     thenE (math_sqrt (real_of_int in_size')) (\<lambda>root.
     thenE (float_div 1 root) (\<lambda>limit.
     thenE (uniform (- limit) limit [in_size', out_size'] g) (\<lambda>(w_vals, g').
       if bias then
         thenE (uniform (- limit) limit [out_size'] g') (\<lambda>(b_vals, g'').
           Inr (\<lparr>training = True,
                 out_size = nat out_size',
                 backend_Linear = backend,
                 in_size = nat in_size',
                 use_bias = bias,
                 weights_Linear = tensor_from_numpy w_vals,
                 bias_Linear = Some (tensor_from_numpy b_vals)\<rparr>, g''))
       else
         Inr (\<lparr>training = True,
               out_size = nat out_size',
               backend_Linear = backend,
               in_size = nat in_size',
               use_bias = bias,
               weights_Linear = tensor_from_numpy w_vals,
               bias_Linear = None\<rparr>, g'))))"

definition Linear_forward :: "'b Linear \<Rightarrow> tensor \<Rightarrow> (error + tensor) \<times> 'b Linear" where
  "Linear_forward self x =
     (case shape x of
        [batch, in_size'] \<Rightarrow>
          thenE (matrix_multiply x (weights_Linear self)) (\<lambda>out.
            if use_bias self then
              (case bias_Linear self of
                 None \<Rightarrow> Inl AttributeError
               | Some b \<Rightarrow> add out b)
            else Inr out)
      | _ \<Rightarrow> Inl ValueError,
      self)"

subsection \<open>LayerNorm1d\<close>

record 'b LayerNorm1d = Module +
  dim :: nat
  eps :: real
  backend_LayerNorm1d :: 'b
  weights_LayerNorm1d :: tensor
  bias_LayerNorm1d :: tensor

definition LayerNorm1d_init :: "int \<Rightarrow> real \<Rightarrow> 'b \<Rightarrow> error + 'b LayerNorm1d" where
  "LayerNorm1d_init dim' eps' backend =
     thenE (np_ones [dim']) (\<lambda>w.
     thenE (np_zeros [dim']) (\<lambda>b.
       Inr \<lparr>training = True,
            dim = nat dim',
            eps = eps',
            backend_LayerNorm1d = backend,
            weights_LayerNorm1d = tensor_from_numpy w,
            bias_LayerNorm1d = tensor_from_numpy b\<rparr>))"

definition LayerNorm1d_forward :: "'b LayerNorm1d \<Rightarrow> tensor \<Rightarrow> (error + tensor) \<times> 'b LayerNorm1d" where
  "LayerNorm1d_forward self x =
     (case shape x of
        [batch, dim'] \<Rightarrow>
          thenE (mean x 1) (\<lambda>mean0.
          thenE (view mean0 [batch, 1]) (\<lambda>mean1.
          thenE (sub x mean1) (\<lambda>diff.
          thenE (mul diff diff) (\<lambda>sq.
          thenE (mean sq 1) (\<lambda>var0.
          thenE (view var0 [batch, 1]) (\<lambda>var.
          thenE (truediv diff (pow_scalar (add_scalar var (eps self)) (1 / 2))) (\<lambda>x_hat.
          thenE (mul x_hat (weights_LayerNorm1d self)) (\<lambda>scaled.
          add scaled (bias_LayerNorm1d self)))))))))
      | _ \<Rightarrow> Inl ValueError,
      self)"

subsection \<open>Calling a module\<close>

text \<open>
  Modelled from the spec: calling a module runs the \<open>forward\<close> of its class. The
  call sees the module, the input and the random generator, and leaves a result, the
  module and the random generator.
\<close>

datatype 'b module =
    EmbeddingM "'b Embedding"
  | DropoutM Dropout
  | LinearM "'b Linear"
  | LayerNorm1dM "'b LayerNorm1d"

fun forward :: "'b module \<Rightarrow> tensor \<Rightarrow> rng \<Rightarrow> (error + tensor) \<times> 'b module \<times> rng" where
  "forward (EmbeddingM self) x g =
     (fst (Embedding_forward self x), EmbeddingM (snd (Embedding_forward self x)), g)"
| "forward (DropoutM self) x g =
     (fst (Dropout_forward self x g), DropoutM (fst (snd (Dropout_forward self x g))),
      snd (snd (Dropout_forward self x g)))"
| "forward (LinearM self) x g =
     (fst (Linear_forward self x), LinearM (snd (Linear_forward self x)), g)"
| "forward (LayerNorm1dM self) x g =
     (fst (LayerNorm1d_forward self x), LayerNorm1dM (snd (LayerNorm1d_forward self x)), g)"


section \<open>Notions used by the statements\<close>

text \<open>\<open>entry t idx\<close> is the entry of \<open>t\<close> at the multi-index \<open>idx\<close>.\<close>

definition entry :: "tensor \<Rightarrow> nat list \<Rightarrow> real" where
  "entry t idx = storage t ! index_to_position idx (shape t)"

text \<open>
  The state of a module as its constructor leaves it and as training keeps it: the
  parameters have the shapes fixed by the configuration fields.
\<close>

definition Embedding_inv :: "'b Embedding \<Rightarrow> bool" where
  "Embedding_inv self =
     (shape (weights_Embedding self) = [num_embeddings self, embedding_dim self]
      \<and> valid_tensor (weights_Embedding self))"

definition Linear_inv :: "'b Linear \<Rightarrow> bool" where
  "Linear_inv self =
     (shape (weights_Linear self) = [in_size self, out_size self]
      \<and> valid_tensor (weights_Linear self)
      \<and> (case bias_Linear self of
            None \<Rightarrow> use_bias self = False
          | Some b \<Rightarrow> use_bias self = True \<and> shape b = [out_size self] \<and> valid_tensor b))"

definition LayerNorm1d_inv :: "'b LayerNorm1d \<Rightarrow> bool" where
  "LayerNorm1d_inv self =
     (shape (weights_LayerNorm1d self) = [dim self]
      \<and> valid_tensor (weights_LayerNorm1d self)
      \<and> shape (bias_LayerNorm1d self) = [dim self]
      \<and> valid_tensor (bias_LayerNorm1d self))"

text \<open>
  Specification of layer normalisation, in the words of the claim: the arithmetic mean
  of row \<open>i\<close> of a matrix, its biased variance (divided by the number of entries of
  the row), and the normalised entry scaled by \<open>w\<close> and shifted by \<open>b\<close>.
\<close>

definition row_mean :: "tensor \<Rightarrow> nat \<Rightarrow> real" where
  "row_mean x i = (\<Sum>j<shape x ! 1. entry x [i, j]) / real (shape x ! 1)"

definition row_var :: "tensor \<Rightarrow> nat \<Rightarrow> real" where
  "row_var x i = (\<Sum>j<shape x ! 1. (entry x [i, j] - row_mean x i)\<^sup>2) / real (shape x ! 1)"


text \<open>
  Specification of the matrix product, entry by entry: the sum over the inner
  dimension of the products.
\<close>

definition matmul_spec :: "tensor \<Rightarrow> tensor \<Rightarrow> nat \<Rightarrow> nat \<Rightarrow> real" where
  "matmul_spec a b i j = (\<Sum>k<shape b ! 0. entry a [i, k] * entry b [k, j])"

text \<open>
  The documented inputs of \<open>forward\<close>, per class: a matrix of in-range indices for
  \<open>Embedding\<close>, any tensor for \<open>Dropout\<close> (whose \<open>p_dropout\<close> is a probability
  when the module is training), a matrix with \<open>in_size\<close> columns for \<open>Linear\<close> and
  a matrix with \<open>dim\<close> columns for \<open>LayerNorm1d\<close>. The module has the parameters
  its constructor gives it.
\<close>

fun documented_input :: "'b module \<Rightarrow> tensor \<Rightarrow> bool" where
  "documented_input (EmbeddingM self) x =
     (Embedding_inv self \<and> length (shape x) = 2 \<and> valid_tensor x
      \<and> list_all (\<lambda>v. v \<in> \<int> \<and> 0 \<le> v \<and> v < real (num_embeddings self)) (storage x))"
| "documented_input (DropoutM self) x =
     (valid_tensor x
      \<and> (if training self then 0 \<le> p_dropout self \<and> p_dropout self \<le> 1 else True))"
| "documented_input (LinearM self) x =
     (Linear_inv self \<and> length (shape x) = 2 \<and> shape x ! 1 = in_size self \<and> valid_tensor x)"
| "documented_input (LayerNorm1dM self) x =
     (LayerNorm1d_inv self \<and> length (shape x) = 2 \<and> shape x ! 1 = dim self \<and> valid_tensor x)"

text \<open>A module draws from the random generator when it is a training dropout with
  \<open>p_dropout \<noteq> 0\<close>.\<close>

fun draws_mask :: "'b module \<Rightarrow> bool" where
  "draws_mask (DropoutM self) = (training self \<and> p_dropout self \<noteq> 0)"
| "draws_mask _ = False"

section \<open>Facts about the tensor operators\<close>

lemma thenE_Inr [simp]: "thenE (Inr v) f = f v"
  by (simp add: thenE_def)

lemma thenE_Inl [simp]: "thenE (Inl e) f = Inl e"
  by (simp add: thenE_def)

lemma mapE_Inr: "(\<And>x. x \<in> set xs \<Longrightarrow> f x = Inr (h x)) \<Longrightarrow> mapE f xs = Inr (map h xs)"
  by (induction xs) simp_all

lemma position_of_to_index:
  "index_to_position (to_index ordinal sh) sh = ordinal mod prod_list sh"
proof (induction sh)
  case Nil
  show ?case by simp
next
  case (Cons d ds)
  have "ordinal mod (prod_list ds * d) =
          prod_list ds * (ordinal div prod_list ds mod d) + ordinal mod prod_list ds"
    by (rule mod_mult2_eq)
  with Cons show ?case by (simp add: mult.commute)
qed

lemma broadcast_rev_same: "broadcast_rev sh sh = Inr sh"
  by (induction sh) simp_all

lemma shape_broadcast_same: "shape_broadcast sh sh = Inr sh"
  by (simp add: shape_broadcast_def broadcast_rev_same)

lemma broadcast_index_same: "broadcast_index (to_index ordinal sh) sh sh = to_index ordinal sh"
  unfolding broadcast_index_def by (induction sh) simp_all

lemma map2_upt:
  "length xs = n \<Longrightarrow> length ys = n \<Longrightarrow>
   map (\<lambda>i. f (xs ! i) (ys ! i)) [0..<n] = map2 f xs ys"
  by (rule nth_equalityI) simp_all

lemma tensor_zip_pointwise:
  assumes "shape b = shape a"
  shows "tensor_zip f a b =
    Inr \<lparr>shape = shape a,
         storage = map (\<lambda>i. f (storage a ! i) (storage b ! i)) [0..<prod_list (shape a)]\<rparr>"
proof -
  have "map (\<lambda>ordinal.
          f (storage a ! index_to_position
               (broadcast_index (to_index ordinal (shape a)) (shape a) (shape a)) (shape a))
            (storage b ! index_to_position
               (broadcast_index (to_index ordinal (shape a)) (shape a) (shape a)) (shape a)))
          [0..<prod_list (shape a)]
        = map (\<lambda>i. f (storage a ! i) (storage b ! i)) [0..<prod_list (shape a)]"
    by (rule map_cong) (simp_all add: broadcast_index_same position_of_to_index)
  then show ?thesis
    using assms by (simp add: tensor_zip_def shape_broadcast_same)
qed

lemma tensor_zip_same_shape:
  assumes "valid_tensor a" "valid_tensor b" "shape b = shape a"
  shows "tensor_zip f a b = Inr \<lparr>shape = shape a, storage = map2 f (storage a) (storage b)\<rparr>"
proof -
  let ?n = "prod_list (shape a)"
  have "map (\<lambda>ordinal.
          f (storage a ! index_to_position
               (broadcast_index (to_index ordinal (shape a)) (shape a) (shape a)) (shape a))
            (storage b ! index_to_position
               (broadcast_index (to_index ordinal (shape a)) (shape a) (shape a)) (shape a)))
          [0..<?n]
        = map (\<lambda>i. f (storage a ! i) (storage b ! i)) [0..<?n]"
    by (rule map_cong) (simp_all add: broadcast_index_same position_of_to_index)
  also have "\<dots> = map2 f (storage a) (storage b)"
    using assms by (intro map2_upt) (simp_all add: valid_tensor_def)
  finally show ?thesis
    using assms by (simp add: tensor_zip_def shape_broadcast_same)
qed

lemma tensor_zip_column:
  assumes "shape a = [bs, dm]" "shape b = [bs, 1]"
  shows "tensor_zip f a b =
    Inr \<lparr>shape = [bs, dm],
         storage = map (\<lambda>i. f (storage a ! i) (storage b ! (i div dm))) [0..<bs * dm]\<rparr>"
proof -
  have sb: "shape_broadcast [bs, dm] [bs, 1] = Inr [bs, dm]"
    by (simp add: shape_broadcast_def)
  have pa: "index_to_position (broadcast_index (to_index i [bs, dm]) [bs, dm] [bs, dm]) [bs, dm] = i"
    if "i < bs * dm" for i
    using that by (simp add: broadcast_index_same position_of_to_index del: to_index.simps)
  have pb: "index_to_position (broadcast_index (to_index i [bs, dm]) [bs, dm] [bs, 1]) [bs, 1] = i div dm"
    if "i < bs * dm" for i
  proof -
    have "i div dm < bs"
      using that by (simp add: less_mult_imp_div_less)
    then show ?thesis
      by (simp add: broadcast_index_def)
  qed
  have "map (\<lambda>i. f (storage a ! index_to_position
                 (broadcast_index (to_index i [bs, dm]) [bs, dm] [bs, dm]) [bs, dm])
              (storage b ! index_to_position
                 (broadcast_index (to_index i [bs, dm]) [bs, dm] [bs, 1]) [bs, 1]))
          [0..<bs * dm]
        = map (\<lambda>i. f (storage a ! i) (storage b ! (i div dm))) [0..<bs * dm]"
    by (rule map_cong) (simp_all only: pa pb atLeastLessThan_iff set_upt)
  then show ?thesis
    using assms sb by (simp add: tensor_zip_def del: to_index.simps index_to_position.simps)
qed

lemma tensor_zip_row:
  assumes "shape a = [bs, dm]" "shape b = [dm]"
  shows "tensor_zip f a b =
    Inr \<lparr>shape = [bs, dm],
         storage = map (\<lambda>i. f (storage a ! i) (storage b ! (i mod dm))) [0..<bs * dm]\<rparr>"
proof -
  have sb: "shape_broadcast [bs, dm] [dm] = Inr [bs, dm]"
    by (simp add: shape_broadcast_def)
  have pa: "index_to_position (broadcast_index (to_index i [bs, dm]) [bs, dm] [bs, dm]) [bs, dm] = i"
    if "i < bs * dm" for i
    using that by (simp add: broadcast_index_same position_of_to_index del: to_index.simps)
  have pb: "index_to_position (broadcast_index (to_index i [bs, dm]) [bs, dm] [dm]) [dm] = i mod dm"
    for i
    by (simp add: broadcast_index_def)
  have "map (\<lambda>i. f (storage a ! index_to_position
                 (broadcast_index (to_index i [bs, dm]) [bs, dm] [bs, dm]) [bs, dm])
              (storage b ! index_to_position
                 (broadcast_index (to_index i [bs, dm]) [bs, dm] [dm]) [dm]))
          [0..<bs * dm]
        = map (\<lambda>i. f (storage a ! i) (storage b ! (i mod dm))) [0..<bs * dm]"
    by (rule map_cong) (simp_all only: pa pb atLeastLessThan_iff set_upt)
  then show ?thesis
    using assms sb by (simp add: tensor_zip_def del: to_index.simps index_to_position.simps)
qed

lemma add_reduce_rows:
  assumes "shape a = [bs, dm]"
  shows "add_reduce a 1 =
    Inr \<lparr>shape = [bs, 1],
         storage = map (\<lambda>i. sum_list (map (\<lambda>j. storage a ! (i * dm + j)) [0..<dm])) [0..<bs]\<rparr>"
proof -
  have "map (\<lambda>i. sum_list (map (\<lambda>j. storage a !
                index_to_position ((to_index i [bs, 1])[1 := j]) [bs, dm]) [0..<dm])) [0..<bs]
        = map (\<lambda>i. sum_list (map (\<lambda>j. storage a ! (i * dm + j)) [0..<dm])) [0..<bs]"
    by (rule map_cong) simp_all
  then show ?thesis
    using assms by (simp add: add_reduce_def del: to_index.simps index_to_position.simps)
qed

lemma mean_rows:
  assumes "shape a = [bs, dm]"
  shows "mean a 1 =
    Inr \<lparr>shape = [bs, 1],
         storage = map (\<lambda>i. sum_list (map (\<lambda>j. storage a ! (i * dm + j)) [0..<dm]) / real dm)
                     [0..<bs]\<rparr>"
  unfolding mean_def add_reduce_rows [OF assms]
  using assms by (simp add: truediv_scalar_def tensor_map_def comp_def)

lemma matrix_multiply_matrices:
  assumes "shape a = [m, k]" "shape b = [k, n]"
  shows "matrix_multiply a b =
    Inr \<lparr>shape = [m, n],
         storage = map (\<lambda>i. sum_list (map (\<lambda>l. storage a ! ((i div n) * k + l)
                                              * storage b ! (l * n + i mod n)) [0..<k]))
                     [0..<m * n]\<rparr>"
  using assms by (simp add: matrix_multiply_def)

lemma flat_index_less: "i < m \<Longrightarrow> j < n \<Longrightarrow> i * n + j < m * (n::nat)"
proof -
  assume "i < m" "j < n"
  then have "i * n + j < Suc i * n"
    by simp
  also have "\<dots> \<le> m * n"
    using \<open>i < m\<close> by (intro mult_le_mono1) simp
  finally show ?thesis .
qed

lemma sum_list_upt: "sum_list (map f [0..<n]) = (\<Sum>k<n. f k)"
  for f :: "nat \<Rightarrow> real"
  by (simp add: interv_sum_list_conv_sum_set_nat atLeast0LessThan)

lemma sum_list_select:
  fixes f :: "nat \<Rightarrow> real"
  assumes "k < n"
  shows "sum_list (map (\<lambda>l. (if l = k then 1 else 0) * f l) [0..<n]) = f k"
proof -
  have "sum_list (map (\<lambda>l. (if l = k then 1 else 0) * f l) [0..<n])
          = (\<Sum>l\<in>{0..<n}. if l = k then f l else 0)"
    by (simp add: interv_sum_list_conv_sum_set_nat if_distrib [of "\<lambda>c. c * _"] cong: if_cong)
  also have "\<dots> = f k"
    using assms by (simp add: sum.delta')
  finally show ?thesis .
qed

lemma entry_matrix: "shape x = [bs, dm] \<Longrightarrow> entry x [i, j] = storage x ! (i * dm + j)"
  by (simp add: entry_def)

lemma matrix_shape:
  assumes "length (sh :: nat list) = 2"
  obtains a b where "sh = [a, b]" "sh ! 1 = b"
proof -
  from assms obtain a b where "sh = [a, b]"
    by (cases sh; cases "tl sh"; cases "tl (tl sh)") auto
  then show ?thesis
    using that by simp
qed

lemma matrix_multiply_entry:
  assumes "shape a = [m, k]" "shape b = [k, n]" "matrix_multiply a b = Inr c" "i < m" "j < n"
  shows "entry c [i, j] = matmul_spec a b i j"
proof -
  have c: "c = \<lparr>shape = [m, n],
         storage = map (\<lambda>i. sum_list (map (\<lambda>l. storage a ! ((i div n) * k + l)
                                              * storage b ! (l * n + i mod n)) [0..<k]))
                     [0..<m * n]\<rparr>"
    using matrix_multiply_matrices [OF assms(1,2)] assms(3) by simp
  have "entry c [i, j] = storage c ! (i * n + j)"
    by (simp add: c entry_def)
  also have "\<dots> = sum_list (map (\<lambda>l. storage a ! (((i * n + j) div n) * k + l)
                                      * storage b ! (l * n + (i * n + j) mod n)) [0..<k])"
    using flat_index_less [OF assms(4,5)]
    by (simp add: c del: div_mult_self3 div_mult_self4 mod_mult_self3 mod_mult_self4)
  also have "\<dots> = sum_list (map (\<lambda>l. storage a ! (i * k + l) * storage b ! (l * n + j)) [0..<k])"
    using assms(5) by simp
  also have "\<dots> = matmul_spec a b i j"
    by (simp add: sum_list_upt matmul_spec_def entry_def assms(1,2))
  finally show ?thesis .
qed

lemma mean_rows_spec:
  assumes "shape x = [bs, dm]"
  shows "mean x 1 = Inr \<lparr>shape = [bs, 1], storage = map (row_mean x) [0..<bs]\<rparr>"
proof -
  have "sum_list (map (\<lambda>j. storage x ! (i * dm + j)) [0..<dm]) / real dm = row_mean x i" for i
    by (simp add: row_mean_def sum_list_upt entry_matrix [OF assms] assms)
  then show ?thesis
    by (simp only: mean_rows [OF assms])
qed

lemma astype_int_less: "0 \<le> v \<Longrightarrow> v < real n \<Longrightarrow> nat (astype_int v) < n"
  by (simp add: astype_int_def nat_less_iff floor_less_iff)

lemma one_hot_in_range:
  assumes "\<And>v. v \<in> set (storage x) \<Longrightarrow> 0 \<le> v \<and> v < real n"
  shows "one_hot x n =
    Inr \<lparr>shape = shape x @ [n],
         storage = map (\<lambda>i. if i mod n = nat (astype_int (storage x ! (i div n))) then 1 else 0)
                     [0..<length (storage x) * n]\<rparr>"
proof -
  have idx: "mapE (\<lambda>v. np_index n (astype_int v)) (storage x)
          = Inr (map (\<lambda>v. nat (astype_int v)) (storage x))"
  proof (rule mapE_Inr)
    fix v assume "v \<in> set (storage x)"
    then have "0 \<le> v" "v < real n"
      using assms by auto
    then have "0 \<le> \<lfloor>v\<rfloor>" "\<lfloor>v\<rfloor> < int n"
      by (simp_all add: floor_less_iff)
    with \<open>0 \<le> v\<close> show "np_index n (astype_int v) = Inr (nat (astype_int v))"
      by (simp add: np_index_def astype_int_def)
  qed
  have "map (\<lambda>i. if i mod n = map (\<lambda>v. nat (astype_int v)) (storage x) ! (i div n)
                  then 1 else (0::real)) [0..<length (storage x) * n]
      = map (\<lambda>i. if i mod n = nat (astype_int (storage x ! (i div n))) then 1 else 0)
          [0..<length (storage x) * n]"
  proof (rule map_cong)
    fix i assume "i \<in> set [0..<length (storage x) * n]"
    then have "i div n < length (storage x)"
      by (simp add: less_mult_imp_div_less)
    then show "(if i mod n = map (\<lambda>v. nat (astype_int v)) (storage x) ! (i div n)
                  then 1 else (0::real))
             = (if i mod n = nat (astype_int (storage x ! (i div n))) then 1 else 0)"
      by simp
  qed simp
  then show ?thesis
    by (simp add: one_hot_def idx)
qed

lemma binomial_one:
  assumes "0 \<le> p" "p \<le> 1"
  shows "binomial 1 p sh g =
    Inr (\<lparr>shape = sh,
          storage = map (\<lambda>i. if uniform_stream g i < p then 1 else 0) [0..<prod_list sh]\<rparr>,
         g\<lparr>uniform_stream := \<lambda>i. uniform_stream g (i + prod_list sh)\<rparr>)"
proof -
  have "real (length (filter (\<lambda>u. u < p) [u])) = (if u < p then 1 else 0)" for u :: real
    by simp
  then show ?thesis
    using assms by (simp add: binomial_def draw_def comp_def)
qed

section \<open>Embedding\<close>

lemma Embedding_forward_lookup:
  assumes inv: "Embedding_inv self"
    and sh: "shape x = [bs, seq_len]"
    and vx: "valid_tensor x"
    and rng: "\<And>v. v \<in> set (storage x) \<Longrightarrow> 0 \<le> v \<and> v < real (num_embeddings self)"
  shows "fst (Embedding_forward self x) =
    Inr \<lparr>shape = [bs, seq_len, embedding_dim self],
         storage = map (\<lambda>i. storage (weights_Embedding self) !
                          (nat (astype_int (storage x ! (i div embedding_dim self)))
                             * embedding_dim self + i mod embedding_dim self))
                     [0..<bs * seq_len * embedding_dim self]\<rparr>"
proof -
  let ?n = "num_embeddings self" and ?d = "embedding_dim self"
  let ?W = "storage (weights_Embedding self)"
  let ?ix = "\<lambda>p. nat (astype_int (storage x ! p))"
  let ?oh = "map (\<lambda>i. if i mod ?n = ?ix (i div ?n) then 1 else (0::real)) [0..<bs * seq_len * ?n]"
  have len: "length (storage x) = bs * seq_len"
    using vx sh by (simp add: valid_tensor_def)
  have oh: "one_hot x ?n = Inr \<lparr>shape = [bs, seq_len, ?n], storage = ?oh\<rparr>"
    using one_hot_in_range [of x ?n] rng by (simp add: sh len)
  have cell: "sum_list (map (\<lambda>l. ?oh ! ((i div ?d) * ?n + l) * ?W ! (l * ?d + i mod ?d)) [0..<?n])
            = ?W ! (?ix (i div ?d) * ?d + i mod ?d)"
    if "i < bs * seq_len * ?d" for i
  proof -
    have p: "i div ?d < bs * seq_len"
      using that by (simp add: less_mult_imp_div_less)
    then have "storage x ! (i div ?d) \<in> set (storage x)"
      by (simp add: len)
    then have v: "0 \<le> storage x ! (i div ?d)" "storage x ! (i div ?d) < real ?n"
      using rng by auto
    then have k: "?ix (i div ?d) < ?n"
      by (rule astype_int_less)
    have "?oh ! ((i div ?d) * ?n + l) = (if l = ?ix (i div ?d) then 1 else 0)" if "l < ?n" for l
    proof -
      have "(i div ?d) * ?n + l < bs * seq_len * ?n"
      proof -
        have "(i div ?d) * ?n + l < (i div ?d) * ?n + ?n"
          using that by simp
        also have "\<dots> = Suc (i div ?d) * ?n"
          by simp
        also have "\<dots> \<le> (bs * seq_len) * ?n"
          using p by (intro mult_le_mono1) simp
        finally show ?thesis .
      qed
      then show ?thesis
        using that by simp
    qed
    then have "map (\<lambda>l. ?oh ! ((i div ?d) * ?n + l) * ?W ! (l * ?d + i mod ?d)) [0..<?n]
             = map (\<lambda>l. (if l = ?ix (i div ?d) then 1 else 0) * ?W ! (l * ?d + i mod ?d)) [0..<?n]"
      by (intro map_cong) simp_all
    then have "sum_list (map (\<lambda>l. ?oh ! ((i div ?d) * ?n + l) * ?W ! (l * ?d + i mod ?d)) [0..<?n])
             = sum_list (map (\<lambda>l. (if l = ?ix (i div ?d) then 1 else 0) * ?W ! (l * ?d + i mod ?d)) [0..<?n])"
      by (simp only:)
    also have "\<dots> = ?W ! (?ix (i div ?d) * ?d + i mod ?d)"
      by (rule sum_list_select [OF k])
    finally show ?thesis .
  qed
  have st: "map (\<lambda>i. sum_list (map (\<lambda>l. ?oh ! ((i div ?d) * ?n + l) * ?W ! (l * ?d + i mod ?d)) [0..<?n]))
          [0..<bs * seq_len * ?d]
      = map (\<lambda>i. ?W ! (?ix (i div ?d) * ?d + i mod ?d)) [0..<bs * seq_len * ?d]"
    by (rule map_cong) (simp_all only: cell set_upt atLeastLessThan_iff)
  have v1: "view \<lparr>shape = [bs, seq_len, ?n], storage = ?oh\<rparr> [bs * seq_len, ?n]
          = Inr \<lparr>shape = [bs * seq_len, ?n], storage = ?oh\<rparr>"
    by (simp add: view_def)
  have "matrix_multiply \<lparr>shape = [bs * seq_len, ?n], storage = ?oh\<rparr> (weights_Embedding self)
          = Inr \<lparr>shape = [bs * seq_len, ?d],
                 storage = map (\<lambda>i. sum_list (map (\<lambda>l.
                     storage \<lparr>shape = [bs * seq_len, ?n], storage = ?oh\<rparr> ! ((i div ?d) * ?n + l)
                       * ?W ! (l * ?d + i mod ?d)) [0..<?n]))
                   [0..<bs * seq_len * ?d]\<rparr>"
    using inv by (intro matrix_multiply_matrices) (simp_all add: Embedding_inv_def)
  then have mm: "matrix_multiply \<lparr>shape = [bs * seq_len, ?n], storage = ?oh\<rparr> (weights_Embedding self)
          = Inr \<lparr>shape = [bs * seq_len, ?d],
                 storage = map (\<lambda>i. ?W ! (?ix (i div ?d) * ?d + i mod ?d)) [0..<bs * seq_len * ?d]\<rparr>"
    by (simp only: tensor.simps st)
  have v2: "view \<lparr>shape = [bs * seq_len, ?d],
                 storage = map (\<lambda>i. ?W ! (?ix (i div ?d) * ?d + i mod ?d)) [0..<bs * seq_len * ?d]\<rparr>
              [bs, seq_len, ?d]
          = Inr \<lparr>shape = [bs, seq_len, ?d],
                 storage = map (\<lambda>i. ?W ! (?ix (i div ?d) * ?d + i mod ?d)) [0..<bs * seq_len * ?d]\<rparr>"
    by (simp add: view_def)
  show ?thesis
    by (simp only: Embedding_forward_def sh list.case oh v1 mm v2 thenE_Inr fst_conv)
qed

text \<open>
  Claim C1. For an \<open>Embedding\<close> module whose weight matrix has shape
  \<open>(num_embeddings, embedding_dim)\<close> and an input \<open>x\<close> of shape
  \<open>(batch_size, seq_len)\<close> whose entries are integers in \<open>[0, num_embeddings)\<close>,
  \<open>forward\<close> returns a tensor of shape \<open>(batch_size, seq_len, embedding_dim)\<close> whose
  slice at \<open>(b, s)\<close> is row \<open>x[b, s]\<close> of the weight matrix; the same entry is the
  product of the one-hot encoding of \<open>x\<close> with the weights.
\<close>

theorem Embedding_forward_is_lookup:
  assumes "Embedding_inv self"
    and "shape x = [bs, seq_len]"
    and "valid_tensor x"
    and "list_all (\<lambda>v. v \<in> \<int> \<and> 0 \<le> v \<and> v < real (num_embeddings self)) (storage x)"
  shows "\<exists>out oh.
      fst (Embedding_forward self x) = Inr out
    \<and> shape out = [bs, seq_len, embedding_dim self]
    \<and> valid_tensor out
    \<and> one_hot x (num_embeddings self) = Inr oh
    \<and> (\<forall>b<bs. \<forall>s<seq_len. \<forall>j<embedding_dim self.
          entry out [b, s, j] = entry (weights_Embedding self) [nat \<lfloor>entry x [b, s]\<rfloor>, j]
        \<and> entry out [b, s, j]
            = (\<Sum>k<num_embeddings self. entry oh [b, s, k] * entry (weights_Embedding self) [k, j]))"
proof -
  let ?n = "num_embeddings self" and ?d = "embedding_dim self"
  let ?W = "storage (weights_Embedding self)"
  let ?ix = "\<lambda>p. nat (astype_int (storage x ! p))"
  let ?out = "\<lparr>shape = [bs, seq_len, ?d],
              storage = map (\<lambda>i. ?W ! (?ix (i div ?d) * ?d + i mod ?d)) [0..<bs * seq_len * ?d]\<rparr>"
  let ?oh = "\<lparr>shape = [bs, seq_len, ?n],
             storage = map (\<lambda>i. if i mod ?n = ?ix (i div ?n) then 1 else (0::real))
                         [0..<bs * seq_len * ?n]\<rparr>"
  have rng: "0 \<le> v \<and> v < real ?n" if "v \<in> set (storage x)" for v
    using assms(4) that by (simp add: list_all_iff)
  have len: "length (storage x) = bs * seq_len"
    using assms(2,3) by (simp add: valid_tensor_def)
  have fwd: "fst (Embedding_forward self x) = Inr ?out"
    using assms(1,2,3) rng by (rule Embedding_forward_lookup)
  have oh: "one_hot x ?n = Inr ?oh"
    using one_hot_in_range [of x ?n] rng by (simp add: assms(2) len)
  have shW: "shape (weights_Embedding self) = [?n, ?d]"
    using assms(1) by (simp add: Embedding_inv_def)
  have cells: "entry ?out [b, s, j] = entry (weights_Embedding self) [nat \<lfloor>entry x [b, s]\<rfloor>, j]
        \<and> entry ?out [b, s, j]
            = (\<Sum>k<?n. entry ?oh [b, s, k] * entry (weights_Embedding self) [k, j])"
    if "b < bs" "s < seq_len" "j < ?d" for b s j
  proof -
    have p: "b * seq_len + s < bs * seq_len"
      using that by (simp add: flat_index_less)
    then have q: "(b * seq_len + s) * ?d + j < bs * seq_len * ?d"
      using that by (simp add: flat_index_less)
    have "storage x ! (b * seq_len + s) \<in> set (storage x)"
      using p by (simp add: len)
    then have v: "0 \<le> storage x ! (b * seq_len + s)"
      using rng by auto
    have out: "entry ?out [b, s, j] = ?W ! (?ix (b * seq_len + s) * ?d + j)"
    proof -
      have "entry ?out [b, s, j] = storage ?out ! ((b * seq_len + s) * ?d + j)"
        by (simp add: entry_def algebra_simps)
      also have "\<dots> = ?W ! (?ix (((b * seq_len + s) * ?d + j) div ?d) * ?d
                             + ((b * seq_len + s) * ?d + j) mod ?d)"
        using q by (simp del: div_mult_self3 div_mult_self4 mod_mult_self3 mod_mult_self4)
      also have "\<dots> = ?W ! (?ix (b * seq_len + s) * ?d + j)"
        using that(3) by simp
      finally show ?thesis .
    qed
    have first: "entry ?out [b, s, j] = entry (weights_Embedding self) [nat \<lfloor>entry x [b, s]\<rfloor>, j]"
      unfolding out using v by (simp add: entry_def shW assms(2) astype_int_def)
    have kn: "?ix (b * seq_len + s) < ?n"
    proof -
      have "storage x ! (b * seq_len + s) < real ?n"
        using rng \<open>storage x ! (b * seq_len + s) \<in> set (storage x)\<close> by auto
      with v show ?thesis
        by (rule astype_int_less)
    qed
    have ohk: "entry ?oh [b, s, k] = (if k = ?ix (b * seq_len + s) then 1 else 0)" if "k < ?n" for k
    proof -
      have "entry ?oh [b, s, k] = storage ?oh ! ((b * seq_len + s) * ?n + k)"
        by (simp add: entry_def algebra_simps)
      also have "\<dots> = (if ((b * seq_len + s) * ?n + k) mod ?n
                            = ?ix (((b * seq_len + s) * ?n + k) div ?n) then 1 else 0)"
        using flat_index_less [OF p that]
        by (simp del: div_mult_self3 div_mult_self4 mod_mult_self3 mod_mult_self4)
      also have "\<dots> = (if k = ?ix (b * seq_len + s) then 1 else 0)"
        using that by simp
      finally show ?thesis .
    qed
    have "(\<Sum>k<?n. entry ?oh [b, s, k] * entry (weights_Embedding self) [k, j])
        = (\<Sum>k<?n. if k = ?ix (b * seq_len + s) then ?W ! (k * ?d + j) else 0)"
    proof (rule sum.cong)
      fix k assume "k \<in> {..<?n}"
      then have "k < ?n"
        by simp
      show "entry ?oh [b, s, k] * entry (weights_Embedding self) [k, j]
          = (if k = ?ix (b * seq_len + s) then ?W ! (k * ?d + j) else 0)"
        unfolding ohk [OF \<open>k < ?n\<close>] by (simp add: entry_def shW)
    qed simp
    also have "\<dots> = ?W ! (?ix (b * seq_len + s) * ?d + j)"
      using kn by (simp add: sum.delta')
    finally have "(\<Sum>k<?n. entry ?oh [b, s, k] * entry (weights_Embedding self) [k, j])
        = entry ?out [b, s, j]"
      by (simp only: out)
    with first show ?thesis
      by (simp only:)
  qed
  have "shape ?out = [bs, seq_len, ?d]" "valid_tensor ?out"
    by (simp_all add: valid_tensor_def)
  with fwd oh cells show ?thesis
    by blast
qed

theorem Embedding_forward_is_lookup_witness:
  "Embedding_inv \<lparr>training = True, backend_Embedding = (), num_embeddings = 2, embedding_dim = 2,
       weights_Embedding = \<lparr>shape = [2, 2], storage = [1, 2, 3, 4]\<rparr>\<rparr>
 \<and> shape \<lparr>shape = [1, 2], storage = [1, 0]\<rparr> = [1, 2]
 \<and> valid_tensor \<lparr>shape = [1, 2], storage = [1, 0]\<rparr>
 \<and> list_all (\<lambda>v. v \<in> \<int> \<and> 0 \<le> v \<and> v < real (2::nat)) (storage \<lparr>shape = [1, 2], storage = [1, 0]\<rparr>)
 \<and> (\<exists>out. fst (Embedding_forward
        \<lparr>training = True, backend_Embedding = (), num_embeddings = 2, embedding_dim = 2,
         weights_Embedding = \<lparr>shape = [2, 2], storage = [1, 2, 3, 4]\<rparr>\<rparr>
        \<lparr>shape = [1, 2], storage = [1, 0]\<rparr>) = Inr out
      \<and> shape out = [1, 2, 2]
      \<and> entry out [0, 0, 0] = 3 \<and> entry out [0, 0, 1] = 4
      \<and> entry out [0, 1, 0] = 1 \<and> entry out [0, 1, 1] = 2)"
proof -
  let ?e = "\<lparr>training = True, backend_Embedding = (), num_embeddings = 2, embedding_dim = 2,
       weights_Embedding = \<lparr>shape = [2, 2], storage = [1, 2, 3, 4]\<rparr>\<rparr>"
  let ?x = "\<lparr>shape = [1, 2], storage = [1, 0]\<rparr>"
  have h1: "Embedding_inv ?e"
    by (simp add: Embedding_inv_def valid_tensor_def)
  have h2: "shape ?x = [1, 2]"
    by simp
  have h3: "valid_tensor ?x"
    by (simp add: valid_tensor_def)
  have h4: "list_all (\<lambda>v. v \<in> \<int> \<and> 0 \<le> v \<and> v < real (num_embeddings ?e)) (storage ?x)"
    by simp
  from Embedding_forward_is_lookup [OF h1 h2 h3 h4]
  obtain out where out: "fst (Embedding_forward ?e ?x) = Inr out" "shape out = [1, 2, 2]"
    and cells: "\<And>b s j. b < 1 \<Longrightarrow> s < 2 \<Longrightarrow> j < 2 \<Longrightarrow>
        entry out [b, s, j] = entry (weights_Embedding ?e) [nat \<lfloor>entry ?x [b, s]\<rfloor>, j]"
    by auto
  have "entry out [0, 0, 0] = 3" "entry out [0, 0, 1] = 4"
       "entry out [0, 1, 0] = 1" "entry out [0, 1, 1] = 2"
    using cells [of 0 0 0] cells [of 0 0 1] cells [of 0 1 0] cells [of 0 1 1] out(2)
    by (simp_all add: entry_def)
  with h1 h2 h3 h4 out show ?thesis
    by simp
qed

section \<open>Linear\<close>

lemma Linear_forward_returns:
  assumes "Linear_inv self" "shape x = [n, in_size self]"
  shows "\<exists>out. fst (Linear_forward self x) = Inr out"
proof -
  have shW: "shape (weights_Linear self) = [in_size self, out_size self]"
    using assms(1) by (simp add: Linear_inv_def)
  obtain xw where xw: "matrix_multiply x (weights_Linear self) = Inr xw"
    and shxw: "shape xw = [n, out_size self]"
    using matrix_multiply_matrices [OF assms(2) shW] by simp
  show ?thesis
  proof (cases "bias_Linear self")
    case None
    then show ?thesis
      using assms(1) by (simp add: Linear_forward_def assms(2) xw Linear_inv_def)
  next
    case (Some b)
    then have "shape b = [out_size self]"
      using assms(1) by (simp add: Linear_inv_def)
    then have "\<exists>out. add xw b = Inr out"
      unfolding add_def using tensor_zip_row [OF shxw, of b] by simp
    then show ?thesis
      by (auto simp: Linear_forward_def assms(2) xw Some)
  qed
qed

text \<open>
  Claim C3. For a \<open>Linear\<close> module and an input \<open>x\<close> of shape \<open>(n, in_size)\<close>,
  \<open>forward\<close> returns a tensor of shape \<open>(n, out_size)\<close>; it is \<open>x @ weights + bias\<close>
  when the module was built with a bias, and exactly \<open>x @ weights\<close> when it was not.
\<close>

theorem Linear_forward_is_affine:
  assumes "Linear_inv self"
    and "shape x = [n, in_size self]"
    and "valid_tensor x"
  shows "\<exists>out.
      fst (Linear_forward self x) = Inr out
    \<and> shape out = [n, out_size self]
    \<and> valid_tensor out
    \<and> (use_bias self \<longrightarrow>
         (\<exists>b. bias_Linear self = Some b
            \<and> (\<forall>i<n. \<forall>j<out_size self.
                 entry out [i, j] = matmul_spec x (weights_Linear self) i j + entry b [j])))
    \<and> (\<not> use_bias self \<longrightarrow>
         matrix_multiply x (weights_Linear self) = Inr out
       \<and> (\<forall>i<n. \<forall>j<out_size self. entry out [i, j] = matmul_spec x (weights_Linear self) i j))"
proof -
  let ?W = "weights_Linear self" and ?k = "in_size self" and ?m = "out_size self"
  have shW: "shape ?W = [?k, ?m]"
    using assms(1) by (simp add: Linear_inv_def)
  obtain xw where xw: "matrix_multiply x ?W = Inr xw"
    and shxw: "shape xw = [n, ?m]" and lenxw: "length (storage xw) = n * ?m"
    using matrix_multiply_matrices [OF assms(2) shW] by simp
  have mm: "entry xw [i, j] = matmul_spec x ?W i j" if "i < n" "j < ?m" for i j
    using assms(2) shW xw that by (rule matrix_multiply_entry)
  show ?thesis
  proof (cases "use_bias self")
    case False
    then have "fst (Linear_forward self x) = Inr xw"
      by (simp add: Linear_forward_def assms(2) xw)
    with False xw shxw lenxw mm show ?thesis
      by (auto simp: valid_tensor_def)
  next
    case True
    then obtain b where b: "bias_Linear self = Some b" "shape b = [?m]"
      using assms(1) by (auto simp: Linear_inv_def split: option.splits)
    let ?out = "\<lparr>shape = [n, ?m],
                storage = map (\<lambda>i. storage xw ! i + storage b ! (i mod ?m)) [0..<n * ?m]\<rparr>"
    have "add xw b = Inr ?out"
      unfolding add_def using shxw b(2) by (rule tensor_zip_row)
    then have fwd: "fst (Linear_forward self x) = Inr ?out"
      using True by (simp add: Linear_forward_def assms(2) xw b(1))
    have "entry ?out [i, j] = matmul_spec x ?W i j + entry b [j]" if "i < n" "j < ?m" for i j
    proof -
      have "entry ?out [i, j] = storage xw ! (i * ?m + j) + storage b ! ((i * ?m + j) mod ?m)"
        using flat_index_less [OF that]
        by (simp add: entry_def del: mod_mult_self3 mod_mult_self4)
      also have "\<dots> = entry xw [i, j] + entry b [j]"
        using that(2) by (simp add: entry_def shxw b(2))
      finally show ?thesis
        by (simp add: mm that)
    qed
    with fwd True b(1) show ?thesis
      by (auto simp: valid_tensor_def)
  qed
qed

theorem Linear_forward_is_affine_witness:
  "Linear_inv \<lparr>training = True, out_size = 1, backend_Linear = (), in_size = 2, use_bias = True,
       weights_Linear = \<lparr>shape = [2, 1], storage = [2, 3]\<rparr>,
       bias_Linear = Some \<lparr>shape = [1], storage = [10]\<rparr>\<rparr>
 \<and> shape \<lparr>shape = [1, 2], storage = [5, 7]\<rparr> = [1, 2]
 \<and> valid_tensor \<lparr>shape = [1, 2], storage = [5, 7]\<rparr>
 \<and> (\<exists>out. fst (Linear_forward
        \<lparr>training = True, out_size = 1, backend_Linear = (), in_size = 2, use_bias = True,
         weights_Linear = \<lparr>shape = [2, 1], storage = [2, 3]\<rparr>,
         bias_Linear = Some \<lparr>shape = [1], storage = [10]\<rparr>\<rparr>
        \<lparr>shape = [1, 2], storage = [5, 7]\<rparr>) = Inr out
      \<and> shape out = [1, 1]
      \<and> entry out [0, 0] = 41)"
proof -
  let ?l = "\<lparr>training = True, out_size = 1, backend_Linear = (), in_size = 2, use_bias = True,
       weights_Linear = \<lparr>shape = [2, 1], storage = [2, 3]\<rparr>,
       bias_Linear = Some \<lparr>shape = [1], storage = [10]\<rparr>\<rparr>"
  let ?x = "\<lparr>shape = [1, 2], storage = [5, 7]\<rparr>"
  have h1: "Linear_inv ?l"
    by (simp add: Linear_inv_def valid_tensor_def)
  have h2: "shape ?x = [1, in_size ?l]"
    by simp
  have h3: "valid_tensor ?x"
    by (simp add: valid_tensor_def)
  from Linear_forward_is_affine [OF h1 h2 h3]
  obtain out where out: "fst (Linear_forward ?l ?x) = Inr out" "shape out = [1, 1]"
    and cells: "\<And>i j. i < 1 \<Longrightarrow> j < 1 \<Longrightarrow>
        entry out [i, j] = matmul_spec ?x (weights_Linear ?l) i j + entry \<lparr>shape = [1], storage = [10]\<rparr> [j]"
    by auto
  have "entry out [0, 0] = 41"
    using cells [of 0 0] out(2)
    by (simp add: matmul_spec_def entry_def lessThan_Suc numeral_2_eq_2)
  with h1 h2 h3 out show ?thesis
    by simp
qed

section \<open>Dropout\<close>

lemma Dropout_forward_masks:
  assumes "training self" "p_dropout self \<noteq> 0" "0 \<le> p_dropout self" "p_dropout self \<le> 1"
    and "valid_tensor x"
  shows "Dropout_forward self x g =
    (Inr \<lparr>shape = shape x,
          storage = map2 (\<lambda>u m. u * m / (1 - p_dropout self)) (storage x)
              (map (\<lambda>i. if uniform_stream g i < 1 - p_dropout self then 1 else 0)
                 [0..<prod_list (shape x)])\<rparr>,
     self,
     g\<lparr>uniform_stream := \<lambda>i. uniform_stream g (i + prod_list (shape x))\<rparr>)"
proof -
  let ?q = "1 - p_dropout self"
  let ?mask = "\<lparr>shape = shape x,
      storage = map (\<lambda>i. if uniform_stream g i < ?q then 1 else (0::real)) [0..<prod_list (shape x)]\<rparr>"
  have b: "binomial 1 ?q (shape x) g =
      Inr (?mask, g\<lparr>uniform_stream := \<lambda>i. uniform_stream g (i + prod_list (shape x))\<rparr>)"
    using assms(3,4) by (intro binomial_one) simp_all
  have "valid_tensor ?mask" "shape ?mask = shape x"
    by (simp_all add: valid_tensor_def)
  with assms(5) have m: "mul x ?mask =
      Inr \<lparr>shape = shape x, storage = map2 (\<lambda>u v. u * v) (storage x) (storage ?mask)\<rparr>"
    unfolding mul_def by (rule tensor_zip_same_shape)
  have "map (\<lambda>u. u / ?q) (map2 (\<lambda>u v. u * v) xs ms) = map2 (\<lambda>u m. u * m / ?q) xs ms"
    for xs ms :: "real list"
    by (simp add: map_zip_map2 comp_def case_prod_unfold)
  then show ?thesis
    using assms(1,2)
    by (simp add: Dropout_forward_def b m tensor_from_numpy_def truediv_scalar_def tensor_map_def
        del: One_nat_def)
qed

text \<open>
  Claim C4. For a \<open>Dropout\<close> module in training mode with \<open>0 < p_dropout < 1\<close> and
  any input tensor \<open>x\<close>, \<open>forward\<close> returns a tensor of the shape of \<open>x\<close>, and there
  is a mask of that shape with entries in \<open>{0, 1}\<close> such that every output entry is the
  input entry times its mask entry, divided by \<open>1 - p_dropout\<close>; so every output entry
  is 0 or the input entry scaled by \<open>1 / (1 - p_dropout)\<close>. Input, mask and output have
  the same shape, so corresponding entries stand at the same row-major position.
\<close>

theorem Dropout_forward_scales_kept_entries:
  assumes "training self" "0 < p_dropout self" "p_dropout self < 1" "valid_tensor x"
  shows "\<exists>out mask.
      fst (Dropout_forward self x g) = Inr out
    \<and> shape out = shape x \<and> valid_tensor out
    \<and> shape mask = shape x \<and> valid_tensor mask
    \<and> list_all (\<lambda>m. m = 0 \<or> m = 1) (storage mask)
    \<and> (\<forall>i<length (storage x).
          storage out ! i = storage x ! i * storage mask ! i / (1 - p_dropout self)
        \<and> (storage out ! i = 0
           \<or> storage out ! i = storage x ! i * (1 / (1 - p_dropout self))))"
proof -
  let ?q = "1 - p_dropout self"
  let ?ms = "map (\<lambda>i. if uniform_stream g i < ?q then 1 else (0::real)) [0..<prod_list (shape x)]"
  let ?mask = "\<lparr>shape = shape x, storage = ?ms\<rparr>"
  let ?out = "\<lparr>shape = shape x, storage = map2 (\<lambda>u m. u * m / ?q) (storage x) ?ms\<rparr>"
  have len: "length (storage x) = prod_list (shape x)"
    using assms(4) by (simp add: valid_tensor_def)
  have fwd: "fst (Dropout_forward self x g) = Inr ?out"
    using assms by (simp add: Dropout_forward_masks)
  have bits: "list_all (\<lambda>m. m = 0 \<or> m = 1) (storage ?mask)"
    by (auto simp: list_all_iff)
  have cells: "storage ?out ! i = storage x ! i * storage ?mask ! i / ?q
        \<and> (storage ?out ! i = 0 \<or> storage ?out ! i = storage x ! i * (1 / ?q))"
    if "i < length (storage x)" for i
    using that by (simp add: len)
  have "shape ?out = shape x" "valid_tensor ?out" "shape ?mask = shape x" "valid_tensor ?mask"
    by (simp_all add: valid_tensor_def len)
  with fwd bits cells show ?thesis
    by blast
qed

theorem Dropout_forward_scales_kept_entries_witness:
  "training \<lparr>training = True, p_dropout = 1 / 2\<rparr>
 \<and> 0 < p_dropout \<lparr>training = True, p_dropout = 1 / 2\<rparr>
 \<and> p_dropout \<lparr>training = True, p_dropout = 1 / 2\<rparr> < 1
 \<and> valid_tensor \<lparr>shape = [2], storage = [1, 3]\<rparr>
 \<and> (\<exists>out mask.
      fst (Dropout_forward \<lparr>training = True, p_dropout = 1 / 2\<rparr> \<lparr>shape = [2], storage = [1, 3]\<rparr>
             \<lparr>normal_stream = \<lambda>i. 0, uniform_stream = \<lambda>i. if i = 0 then 1 / 4 else 3 / 4\<rparr>)
        = Inr out
    \<and> shape out = shape \<lparr>shape = [2], storage = [1, 3]\<rparr> \<and> valid_tensor out
    \<and> shape mask = shape \<lparr>shape = [2], storage = [1, 3]\<rparr> \<and> valid_tensor mask
    \<and> list_all (\<lambda>m. m = 0 \<or> m = 1) (storage mask)
    \<and> (\<forall>i<length (storage \<lparr>shape = [2], storage = [1, 3]\<rparr>).
          storage out ! i = storage \<lparr>shape = [2], storage = [1, 3]\<rparr> ! i * storage mask ! i
                              / (1 - p_dropout \<lparr>training = True, p_dropout = 1 / 2\<rparr>)
        \<and> (storage out ! i = 0
           \<or> storage out ! i = storage \<lparr>shape = [2], storage = [1, 3]\<rparr> ! i
                                   * (1 / (1 - p_dropout \<lparr>training = True, p_dropout = 1 / 2\<rparr>)))))"
proof -
  let ?d = "\<lparr>training = True, p_dropout = 1 / 2\<rparr>"
  let ?x = "\<lparr>shape = [2], storage = [1, 3]\<rparr>"
  have h1: "training ?d" and h2: "0 < p_dropout ?d" and h3: "p_dropout ?d < 1"
    by simp_all
  have h4: "valid_tensor ?x"
    by (simp add: valid_tensor_def)
  show ?thesis
    by (intro conjI h1 h2 h3 h4 Dropout_forward_scales_kept_entries [OF h1 h2 h3 h4])
qed

text \<open>
  Claim C5. When the module is not in training mode, or \<open>p_dropout\<close> is 0,
  \<open>Dropout.forward\<close> returns its input unchanged (and leaves the module and the random
  generator as they were).
\<close>

theorem Dropout_forward_identity:
  assumes "\<not> training self \<or> p_dropout self = 0"
  shows "Dropout_forward self x g = (Inr x, self, g)"
  using assms by (simp add: Dropout_forward_def)

theorem Dropout_forward_identity_witness:
  "training \<lparr>training = False, p_dropout = 1 / 2\<rparr> = False
 \<and> Dropout_forward \<lparr>training = False, p_dropout = 1 / 2\<rparr> \<lparr>shape = [2], storage = [1, 3]\<rparr>
       \<lparr>normal_stream = \<lambda>i. 0, uniform_stream = \<lambda>i. if i = 0 then 1 / 4 else 3 / 4\<rparr>
     = (Inr \<lparr>shape = [2], storage = [1, 3]\<rparr>, \<lparr>training = False, p_dropout = 1 / 2\<rparr>,
        \<lparr>normal_stream = \<lambda>i. 0, uniform_stream = \<lambda>i. if i = 0 then 1 / 4 else 3 / 4\<rparr>)
 \<and> p_dropout \<lparr>training = True, p_dropout = 0\<rparr> = 0
 \<and> Dropout_forward \<lparr>training = True, p_dropout = 0\<rparr> \<lparr>shape = [2], storage = [1, 3]\<rparr>
       \<lparr>normal_stream = \<lambda>i. 0, uniform_stream = \<lambda>i. if i = 0 then 1 / 4 else 3 / 4\<rparr>
     = (Inr \<lparr>shape = [2], storage = [1, 3]\<rparr>, \<lparr>training = True, p_dropout = 0\<rparr>,
        \<lparr>normal_stream = \<lambda>i. 0, uniform_stream = \<lambda>i. if i = 0 then 1 / 4 else 3 / 4\<rparr>)"
proof -
  have a: "\<not> training \<lparr>training = False, p_dropout = 1 / 2\<rparr>
         \<or> p_dropout \<lparr>training = False, p_dropout = 1 / 2\<rparr> = 0"
    by simp
  have b: "\<not> training \<lparr>training = True, p_dropout = 0\<rparr>
         \<or> p_dropout \<lparr>training = True, p_dropout = 0\<rparr> = 0"
    by simp
  show ?thesis
    using Dropout_forward_identity [OF a] Dropout_forward_identity [OF b] by simp
qed

section \<open>LayerNorm1d\<close>

lemma LayerNorm1d_centered:
  assumes sh: "shape x = [bs, dm]"
  shows "thenE (mean x 1) (\<lambda>mean0. thenE (view mean0 [bs, 1]) (\<lambda>mean1. sub x mean1)) =
    Inr \<lparr>shape = [bs, dm],
         storage = map (\<lambda>p. storage x ! p - row_mean x (p div dm)) [0..<bs * dm]\<rparr>"
proof -
  let ?M = "\<lparr>shape = [bs, 1], storage = map (row_mean x) [0..<bs]\<rparr>"
  have v: "view ?M [bs, 1] = Inr ?M"
    by (simp add: view_def)
  have "sub x ?M = Inr \<lparr>shape = [bs, dm],
         storage = map (\<lambda>p. storage x ! p - storage ?M ! (p div dm)) [0..<bs * dm]\<rparr>"
    unfolding sub_def using sh by (intro tensor_zip_column) simp_all
  moreover have "map (\<lambda>p. storage x ! p - storage ?M ! (p div dm)) [0..<bs * dm]
      = map (\<lambda>p. storage x ! p - row_mean x (p div dm)) [0..<bs * dm]"
    by (rule map_cong) (simp_all add: less_mult_imp_div_less)
  ultimately have s: "sub x ?M = Inr \<lparr>shape = [bs, dm],
         storage = map (\<lambda>p. storage x ! p - row_mean x (p div dm)) [0..<bs * dm]\<rparr>"
    by (simp only:)
  show ?thesis
    by (simp only: mean_rows_spec [OF sh] thenE_Inr v s)
qed

lemma LayerNorm1d_normalized:
  assumes sh: "shape x = [bs, dm]"
  shows "thenE (mean x 1) (\<lambda>mean0.
         thenE (view mean0 [bs, 1]) (\<lambda>mean1.
         thenE (sub x mean1) (\<lambda>diff.
         thenE (mul diff diff) (\<lambda>sq.
         thenE (mean sq 1) (\<lambda>var0.
         thenE (view var0 [bs, 1]) (\<lambda>var.
         truediv diff (pow_scalar (add_scalar var e) (1 / 2))))))))
    = Inr \<lparr>shape = [bs, dm],
           storage = map (\<lambda>p. (storage x ! p - row_mean x (p div dm))
                                / (row_var x (p div dm) + e) powr (1 / 2)) [0..<bs * dm]\<rparr>"
proof -
  let ?D = "\<lparr>shape = [bs, dm],
         storage = map (\<lambda>p. storage x ! p - row_mean x (p div dm)) [0..<bs * dm]\<rparr>"
  let ?SQ = "\<lparr>shape = [bs, dm],
         storage = map (\<lambda>p. storage ?D ! p * storage ?D ! p) [0..<bs * dm]\<rparr>"
  let ?V = "\<lparr>shape = [bs, 1], storage = map (row_var x) [0..<bs]\<rparr>"
  let ?DEN = "\<lparr>shape = [bs, 1], storage = map (\<lambda>i. (row_var x i + e) powr (1 / 2)) [0..<bs]\<rparr>"
  have d: "thenE (mean x 1) (\<lambda>mean0. thenE (view mean0 [bs, 1]) (\<lambda>mean1. sub x mean1)) = Inr ?D"
    by (rule LayerNorm1d_centered [OF sh])
  have sq: "mul ?D ?D = Inr ?SQ"
    using tensor_zip_pointwise [of ?D ?D "\<lambda>u v. u * v"] by (simp add: mul_def)
  have "row_mean ?SQ i = row_var x i" if "i < bs" for i
  proof -
    have "(\<Sum>j<dm. entry ?SQ [i, j]) = (\<Sum>j<dm. (entry x [i, j] - row_mean x i)\<^sup>2)"
    proof (rule sum.cong)
      fix j assume "j \<in> {..<dm}"
      then have j: "j < dm"
        by simp
      have "entry ?SQ [i, j] = storage ?SQ ! (i * dm + j)"
        by (simp add: entry_def)
      also have "\<dots> = (storage x ! (i * dm + j) - row_mean x ((i * dm + j) div dm))\<^sup>2"
        using flat_index_less [OF that j]
        by (simp add: power2_eq_square del: div_mult_self3 div_mult_self4)
      also have "\<dots> = (entry x [i, j] - row_mean x i)\<^sup>2"
        using j by (simp add: entry_matrix [OF sh])
      finally show "entry ?SQ [i, j] = (entry x [i, j] - row_mean x i)\<^sup>2" .
    qed simp
    then show ?thesis
      by (simp add: row_mean_def row_var_def sh)
  qed
  then have "map (row_mean ?SQ) [0..<bs] = map (row_var x) [0..<bs]"
    by (intro map_cong) simp_all
  then have v0: "mean ?SQ 1 = Inr ?V"
    using mean_rows_spec [of ?SQ bs dm] by (simp only: tensor.simps)
  have v1: "view ?V [bs, 1] = Inr ?V"
    by (simp add: view_def)
  have den: "pow_scalar (add_scalar ?V e) (1 / 2) = ?DEN"
    by (simp add: pow_scalar_def add_scalar_def tensor_map_def comp_def)
  have "truediv ?D ?DEN = Inr \<lparr>shape = [bs, dm],
         storage = map (\<lambda>p. storage ?D ! p / storage ?DEN ! (p div dm)) [0..<bs * dm]\<rparr>"
    unfolding truediv_def by (intro tensor_zip_column) simp_all
  moreover have "map (\<lambda>p. storage ?D ! p / storage ?DEN ! (p div dm)) [0..<bs * dm]
      = map (\<lambda>p. (storage x ! p - row_mean x (p div dm))
                     / (row_var x (p div dm) + e) powr (1 / 2)) [0..<bs * dm]"
    by (rule map_cong) (simp_all add: less_mult_imp_div_less)
  ultimately have xh: "truediv ?D ?DEN = Inr \<lparr>shape = [bs, dm],
         storage = map (\<lambda>p. (storage x ! p - row_mean x (p div dm))
                              / (row_var x (p div dm) + e) powr (1 / 2)) [0..<bs * dm]\<rparr>"
    by (simp only:)
  have "thenE (mean x 1) (\<lambda>mean0.
         thenE (view mean0 [bs, 1]) (\<lambda>mean1.
         thenE (sub x mean1) (\<lambda>diff.
         thenE (mul diff diff) (\<lambda>sq.
         thenE (mean sq 1) (\<lambda>var0.
         thenE (view var0 [bs, 1]) (\<lambda>var.
         truediv diff (pow_scalar (add_scalar var e) (1 / 2))))))))
      = thenE (thenE (mean x 1) (\<lambda>mean0. thenE (view mean0 [bs, 1]) (\<lambda>mean1. sub x mean1)))
          (\<lambda>diff.
         thenE (mul diff diff) (\<lambda>sq.
         thenE (mean sq 1) (\<lambda>var0.
         thenE (view var0 [bs, 1]) (\<lambda>var.
         truediv diff (pow_scalar (add_scalar var e) (1 / 2))))))"
    by (simp add: thenE_def split: sum.splits)
  also have "\<dots> = Inr \<lparr>shape = [bs, dm],
         storage = map (\<lambda>p. (storage x ! p - row_mean x (p div dm))
                              / (row_var x (p div dm) + e) powr (1 / 2)) [0..<bs * dm]\<rparr>"
    by (simp only: d thenE_Inr sq v0 v1 den xh)
  finally show ?thesis .
qed

lemma LayerNorm1d_forward_unfold:
  assumes "shape x = [bs, dm]"
  shows "fst (LayerNorm1d_forward self x) =
    thenE (thenE (mean x 1) (\<lambda>mean0.
           thenE (view mean0 [bs, 1]) (\<lambda>mean1.
           thenE (sub x mean1) (\<lambda>diff.
           thenE (mul diff diff) (\<lambda>sq.
           thenE (mean sq 1) (\<lambda>var0.
           thenE (view var0 [bs, 1]) (\<lambda>var.
           truediv diff (pow_scalar (add_scalar var (eps self)) (1 / 2)))))))))
      (\<lambda>x_hat. thenE (mul x_hat (weights_LayerNorm1d self)) (\<lambda>scaled.
         add scaled (bias_LayerNorm1d self)))"
  using assms by (simp add: LayerNorm1d_forward_def thenE_def split: sum.splits)

lemma LayerNorm1d_forward_cells:
  assumes inv: "LayerNorm1d_inv self"
    and sh: "shape x = [bs, dim self]"
  shows "fst (LayerNorm1d_forward self x) =
    Inr \<lparr>shape = [bs, dim self],
         storage = map (\<lambda>p. (storage x ! p - row_mean x (p div dim self))
                                / (row_var x (p div dim self) + eps self) powr (1 / 2)
                              * storage (weights_LayerNorm1d self) ! (p mod dim self)
                              + storage (bias_LayerNorm1d self) ! (p mod dim self))
                     [0..<bs * dim self]\<rparr>"
proof -
  let ?dm = "dim self"
  let ?W = "weights_LayerNorm1d self" and ?B = "bias_LayerNorm1d self"
  let ?xh = "\<lambda>p. (storage x ! p - row_mean x (p div ?dm))
                   / (row_var x (p div ?dm) + eps self) powr (1 / 2)"
  let ?XH = "\<lparr>shape = [bs, ?dm], storage = map ?xh [0..<bs * ?dm]\<rparr>"
  let ?S = "\<lparr>shape = [bs, ?dm],
       storage = map (\<lambda>p. ?xh p * storage ?W ! (p mod ?dm)) [0..<bs * ?dm]\<rparr>"
  have shW: "shape ?W = [?dm]" and shB: "shape ?B = [?dm]"
    using inv by (simp_all add: LayerNorm1d_inv_def)
  have "mul ?XH ?W = Inr \<lparr>shape = [bs, ?dm],
       storage = map (\<lambda>p. storage ?XH ! p * storage ?W ! (p mod ?dm)) [0..<bs * ?dm]\<rparr>"
    unfolding mul_def using shW by (intro tensor_zip_row) simp_all
  moreover have "map (\<lambda>p. storage ?XH ! p * storage ?W ! (p mod ?dm)) [0..<bs * ?dm]
      = map (\<lambda>p. ?xh p * storage ?W ! (p mod ?dm)) [0..<bs * ?dm]"
    by (rule map_cong) simp_all
  ultimately have sc: "mul ?XH ?W = Inr ?S"
    by (simp only:)
  have "add ?S ?B = Inr \<lparr>shape = [bs, ?dm],
       storage = map (\<lambda>p. storage ?S ! p + storage ?B ! (p mod ?dm)) [0..<bs * ?dm]\<rparr>"
    unfolding add_def using shB by (intro tensor_zip_row) simp_all
  moreover have "map (\<lambda>p. storage ?S ! p + storage ?B ! (p mod ?dm)) [0..<bs * ?dm]
      = map (\<lambda>p. ?xh p * storage ?W ! (p mod ?dm) + storage ?B ! (p mod ?dm)) [0..<bs * ?dm]"
    by (rule map_cong) simp_all
  ultimately have out: "add ?S ?B = Inr \<lparr>shape = [bs, ?dm],
       storage = map (\<lambda>p. ?xh p * storage ?W ! (p mod ?dm) + storage ?B ! (p mod ?dm))
                   [0..<bs * ?dm]\<rparr>"
    by (simp only:)
  show ?thesis
    by (simp only: LayerNorm1d_forward_unfold [OF sh] LayerNorm1d_normalized [OF sh]
        thenE_Inr sc out)
qed




lemma row_mean_shift:
  assumes sh: "shape x = [bs, dm]" and vx: "valid_tensor x" and i: "i < bs" and dm: "0 < dm"
  shows "row_mean (x\<lparr>storage := map (\<lambda>v. v + c) (storage x)\<rparr>) i = row_mean x i + c"
proof -
  let ?x' = "x\<lparr>storage := map (\<lambda>v. v + c) (storage x)\<rparr>"
  have len: "length (storage x) = bs * dm"
    using sh vx by (simp add: valid_tensor_def)
  have "(\<Sum>j<dm. entry ?x' [i, j]) = (\<Sum>j<dm. entry x [i, j] + c)"
  proof (rule sum.cong)
    fix j assume "j \<in> {..<dm}"
    then have "i * dm + j < length (storage x)"
      using i by (simp add: len flat_index_less)
    then show "entry ?x' [i, j] = entry x [i, j] + c"
      by (simp add: entry_def sh)
  qed simp
  also have "\<dots> = (\<Sum>j<dm. entry x [i, j]) + real dm * c"
    by (simp add: sum.distrib)
  finally show ?thesis
    using dm by (simp add: row_mean_def sh add_divide_distrib)
qed

lemma row_var_shift:
  assumes sh: "shape x = [bs, dm]" and vx: "valid_tensor x" and i: "i < bs" and dm: "0 < dm"
  shows "row_var (x\<lparr>storage := map (\<lambda>v. v + c) (storage x)\<rparr>) i = row_var x i"
proof -
  let ?x' = "x\<lparr>storage := map (\<lambda>v. v + c) (storage x)\<rparr>"
  have len: "length (storage x) = bs * dm"
    using sh vx by (simp add: valid_tensor_def)
  have "(\<Sum>j<dm. (entry ?x' [i, j] - row_mean ?x' i)\<^sup>2)
      = (\<Sum>j<dm. (entry x [i, j] - row_mean x i)\<^sup>2)"
  proof (rule sum.cong)
    fix j assume "j \<in> {..<dm}"
    then have "i * dm + j < length (storage x)"
      using i by (simp add: len flat_index_less)
    then have "entry ?x' [i, j] = entry x [i, j] + c"
      by (simp add: entry_def sh)
    then show "(entry ?x' [i, j] - row_mean ?x' i)\<^sup>2 = (entry x [i, j] - row_mean x i)\<^sup>2"
      by (simp add: row_mean_shift [OF sh vx i dm])
  qed simp
  then show ?thesis
    by (simp add: row_var_def sh)
qed

text \<open>
  Claim C10. Over exact arithmetic, adding a constant \<open>c\<close> to every entry of the input
  does not change the output of \<open>LayerNorm1d.forward\<close>.
\<close>

theorem LayerNorm1d_forward_shift_invariant:
  assumes "valid_tensor x"
  shows "fst (LayerNorm1d_forward self (x\<lparr>storage := map (\<lambda>v. v + c) (storage x)\<rparr>))
       = fst (LayerNorm1d_forward self x)"
proof (cases "\<exists>bs dm. shape x = [bs, dm]")
  case False
  then show ?thesis
    by (auto simp: LayerNorm1d_forward_def split: list.splits)
next
  case True
  then obtain bs dm where sh: "shape x = [bs, dm]"
    by blast
  let ?x' = "x\<lparr>storage := map (\<lambda>v. v + c) (storage x)\<rparr>"
  have sh': "shape ?x' = [bs, dm]"
    using sh by simp
  have len: "length (storage x) = bs * dm"
    using sh assms by (simp add: valid_tensor_def)
  have "map (\<lambda>p. (storage ?x' ! p - row_mean ?x' (p div dm))
                    / (row_var ?x' (p div dm) + eps self) powr (1 / 2)) [0..<bs * dm]
      = map (\<lambda>p. (storage x ! p - row_mean x (p div dm))
                    / (row_var x (p div dm) + eps self) powr (1 / 2)) [0..<bs * dm]"
  proof (rule map_cong)
    fix p assume "p \<in> set [0..<bs * dm]"
    then have p: "p < bs * dm"
      by simp
    then have dm: "0 < dm" and i: "p div dm < bs"
      by (auto simp: less_mult_imp_div_less intro: Nat.gr0I)
    have "storage ?x' ! p = storage x ! p + c"
      using p by (simp add: len)
    then show "(storage ?x' ! p - row_mean ?x' (p div dm))
                 / (row_var ?x' (p div dm) + eps self) powr (1 / 2)
             = (storage x ! p - row_mean x (p div dm))
                 / (row_var x (p div dm) + eps self) powr (1 / 2)"
      by (simp add: row_mean_shift [OF sh assms i dm] row_var_shift [OF sh assms i dm])
  qed simp
  then show ?thesis
    by (simp only: LayerNorm1d_forward_unfold [OF sh] LayerNorm1d_forward_unfold [OF sh']
        LayerNorm1d_normalized [OF sh] LayerNorm1d_normalized [OF sh'])
qed

theorem LayerNorm1d_forward_shift_invariant_witness:
  "valid_tensor \<lparr>shape = [1, 2], storage = [1, 3]\<rparr>
 \<and> fst (LayerNorm1d_forward
        \<lparr>training = True, dim = 2, eps = 3, backend_LayerNorm1d = (),
         weights_LayerNorm1d = \<lparr>shape = [2], storage = [1, 1]\<rparr>,
         bias_LayerNorm1d = \<lparr>shape = [2], storage = [0, 0]\<rparr>\<rparr>
        \<lparr>shape = [1, 2], storage = [6, 8]\<rparr>)
   = fst (LayerNorm1d_forward
        \<lparr>training = True, dim = 2, eps = 3, backend_LayerNorm1d = (),
         weights_LayerNorm1d = \<lparr>shape = [2], storage = [1, 1]\<rparr>,
         bias_LayerNorm1d = \<lparr>shape = [2], storage = [0, 0]\<rparr>\<rparr>
        \<lparr>shape = [1, 2], storage = [1, 3]\<rparr>)"
proof -
  let ?x = "\<lparr>shape = [1, 2], storage = [1, 3]\<rparr>"
  have h: "valid_tensor ?x"
    by (simp add: valid_tensor_def)
  show ?thesis
    using h LayerNorm1d_forward_shift_invariant [OF h, where c = 5 and self =
        "\<lparr>training = True, dim = 2, eps = 3, backend_LayerNorm1d = (),
          weights_LayerNorm1d = \<lparr>shape = [2], storage = [1, 1]\<rparr>,
          bias_LayerNorm1d = \<lparr>shape = [2], storage = [0, 0]\<rparr>\<rparr>"]
    by simp
qed

section \<open>Constructors\<close>

text \<open>
  Claim C6, as amended. For non-negative sizes, and \<open>in_size \<ge> 1\<close> for \<open>Linear\<close>,
  each constructor builds its parameters: \<open>Embedding\<close> a weight matrix of shape
  \<open>(num_embeddings, embedding_dim)\<close>; \<open>Linear\<close> a weight matrix of shape
  \<open>(in_size, out_size)\<close> and, exactly when \<open>bias\<close> is true, a bias of shape
  \<open>(out_size,)\<close> (otherwise \<open>None\<close>); \<open>LayerNorm1d\<close> weights of shape \<open>(dim,)\<close>
  with every entry 1 and a bias of shape \<open>(dim,)\<close> with every entry 0. The module
  built satisfies the invariant of its class.
\<close>

theorem constructors_build_parameters:
  "(0 \<le> ne \<and> 0 \<le> ed \<longrightarrow>
      (\<exists>m g'. Embedding_init ne ed bk g = Inr (m, g')
         \<and> shape (weights_Embedding m) = [nat ne, nat ed]
         \<and> num_embeddings m = nat ne \<and> embedding_dim m = nat ed
         \<and> Embedding_inv m))
 \<and> (0 < isz \<and> 0 \<le> osz \<longrightarrow>
      (\<exists>m g'. Linear_init isz osz b bk g = Inr (m, g')
         \<and> shape (weights_Linear m) = [nat isz, nat osz]
         \<and> (if b then \<exists>t. bias_Linear m = Some t \<and> shape t = [nat osz]
             else bias_Linear m = None)
         \<and> in_size m = nat isz \<and> out_size m = nat osz \<and> use_bias m = b
         \<and> Linear_inv m))
 \<and> (0 \<le> d \<longrightarrow>
      (\<exists>m. LayerNorm1d_init d e bk = Inr m
         \<and> shape (weights_LayerNorm1d m) = [nat d]
         \<and> storage (weights_LayerNorm1d m) = replicate (nat d) 1
         \<and> shape (bias_LayerNorm1d m) = [nat d]
         \<and> storage (bias_LayerNorm1d m) = replicate (nat d) 0
         \<and> dim m = nat d \<and> eps m = e
         \<and> LayerNorm1d_inv m))"
proof (intro conjI impI)
  assume "0 \<le> ne \<and> 0 \<le> ed"
  then show "\<exists>m g'. Embedding_init ne ed bk g = Inr (m, g')
         \<and> shape (weights_Embedding m) = [nat ne, nat ed]
         \<and> num_embeddings m = nat ne \<and> embedding_dim m = nat ed
         \<and> Embedding_inv m"
    by (simp add: Embedding_init_def randn_def np_shape_def draw_def tensor_from_numpy_def
        Embedding_inv_def valid_tensor_def)
next
  assume a: "0 < isz \<and> 0 \<le> osz"
  then have root: "math_sqrt (real_of_int isz) = Inr (sqrt (real_of_int isz))"
    and pos: "sqrt (real_of_int isz) \<noteq> 0"
    by (simp_all add: math_sqrt_def)
  show "\<exists>m g'. Linear_init isz osz b bk g = Inr (m, g')
         \<and> shape (weights_Linear m) = [nat isz, nat osz]
         \<and> (if b then \<exists>t. bias_Linear m = Some t \<and> shape t = [nat osz]
             else bias_Linear m = None)
         \<and> in_size m = nat isz \<and> out_size m = nat osz \<and> use_bias m = b
         \<and> Linear_inv m"
    using a pos
    by (simp add: Linear_init_def root float_div_def uniform_def np_shape_def draw_def
        tensor_from_numpy_def Linear_inv_def valid_tensor_def)
next
  assume "0 \<le> d"
  then show "\<exists>m. LayerNorm1d_init d e bk = Inr m
         \<and> shape (weights_LayerNorm1d m) = [nat d]
         \<and> storage (weights_LayerNorm1d m) = replicate (nat d) 1
         \<and> shape (bias_LayerNorm1d m) = [nat d]
         \<and> storage (bias_LayerNorm1d m) = replicate (nat d) 0
         \<and> dim m = nat d \<and> eps m = e
         \<and> LayerNorm1d_inv m"
    by (simp add: LayerNorm1d_init_def np_ones_def np_zeros_def np_shape_def
        tensor_from_numpy_def LayerNorm1d_inv_def valid_tensor_def)
qed

theorem constructors_build_parameters_witness:
  "(0::int) \<le> 2 \<and> (0::int) \<le> 3 \<and> (0::int) < 2 \<and> (0::int) \<le> 4
 \<and> (\<exists>m g'. Embedding_init 2 3 ()
        \<lparr>normal_stream = \<lambda>i. 0, uniform_stream = \<lambda>i. if i = 0 then 1 / 4 else 3 / 4\<rparr> = Inr (m, g')
      \<and> shape (weights_Embedding m) = [2, 3]
      \<and> Embedding_inv m)
 \<and> (\<exists>m g'. Linear_init 2 3 True ()
        \<lparr>normal_stream = \<lambda>i. 0, uniform_stream = \<lambda>i. if i = 0 then 1 / 4 else 3 / 4\<rparr> = Inr (m, g')
      \<and> shape (weights_Linear m) = [2, 3]
      \<and> (\<exists>t. bias_Linear m = Some t \<and> shape t = [3])
      \<and> Linear_inv m)
 \<and> (\<exists>m g'. Linear_init 2 3 False ()
        \<lparr>normal_stream = \<lambda>i. 0, uniform_stream = \<lambda>i. if i = 0 then 1 / 4 else 3 / 4\<rparr> = Inr (m, g')
      \<and> shape (weights_Linear m) = [2, 3]
      \<and> bias_Linear m = None
      \<and> Linear_inv m)
 \<and> (\<exists>m. LayerNorm1d_init 4 (1 / 100000) () = Inr m
      \<and> shape (weights_LayerNorm1d m) = [4]
      \<and> storage (weights_LayerNorm1d m) = [1, 1, 1, 1]
      \<and> shape (bias_LayerNorm1d m) = [4]
      \<and> storage (bias_LayerNorm1d m) = [0, 0, 0, 0]
      \<and> LayerNorm1d_inv m)"
proof -
  let ?g = "\<lparr>normal_stream = \<lambda>i. 0, uniform_stream = \<lambda>i. if i = 0 then 1 / 4 else (3 / 4 :: real)\<rparr>"
  have r: "replicate 4 (c::real) = [c, c, c, c]" for c
    by (simp add: numeral_eq_Suc)
  note t = constructors_build_parameters [of 2 3 "()" ?g 2 3 True 4 "1 / 100000"]
  note f = constructors_build_parameters [of 2 3 "()" ?g 2 3 False 4 "1 / 100000"]
  have emb: "\<exists>m g'. Embedding_init 2 3 () ?g = Inr (m, g')
      \<and> shape (weights_Embedding m) = [2, 3] \<and> Embedding_inv m"
    using t by auto
  have lin: "\<exists>m g'. Linear_init 2 3 True () ?g = Inr (m, g')
      \<and> shape (weights_Linear m) = [2, 3]
      \<and> (\<exists>t. bias_Linear m = Some t \<and> shape t = [3]) \<and> Linear_inv m"
    using t by auto
  have lin': "\<exists>m g'. Linear_init 2 3 False () ?g = Inr (m, g')
      \<and> shape (weights_Linear m) = [2, 3] \<and> bias_Linear m = None \<and> Linear_inv m"
    using f by auto
  have ln: "\<exists>m. LayerNorm1d_init 4 (1 / 100000) () = Inr m
      \<and> shape (weights_LayerNorm1d m) = [4]
      \<and> storage (weights_LayerNorm1d m) = [1, 1, 1, 1]
      \<and> shape (bias_LayerNorm1d m) = [4]
      \<and> storage (bias_LayerNorm1d m) = [0, 0, 0, 0]
      \<and> LayerNorm1d_inv m"
    using t by (auto simp: r)
  show ?thesis
    using emb lin lin' ln by simp
qed

text \<open>
  Claim C6 as stated fails for \<open>Linear\<close> with \<open>in_size = 0\<close>: the constructor
  computes \<open>1.0 / math.sqrt(in_size)\<close> before it builds any parameter, and the
  division raises \<open>ZeroDivisionError\<close>. A negative size is no dimension of a shape,
  and numpy raises \<open>ValueError\<close> for it.
\<close>

theorem Linear_init_raises_on_zero_in_size:
  "Linear_init 0 3 True ()
     \<lparr>normal_stream = \<lambda>i. 0, uniform_stream = \<lambda>i. if i = 0 then 1 / 4 else 3 / 4\<rparr>
   = Inl ZeroDivisionError
 \<and> Embedding_init (- 1) 3 ()
     \<lparr>normal_stream = \<lambda>i. 0, uniform_stream = \<lambda>i. if i = 0 then 1 / 4 else 3 / 4\<rparr>
   = Inl ValueError
 \<and> LayerNorm1d_init (- 1) (1 / 100000) () = Inl ValueError"
  by (simp add: Linear_init_def math_sqrt_def float_div_def Embedding_init_def randn_def
      LayerNorm1d_init_def np_ones_def np_shape_def)

section \<open>Properties of every forward method\<close>

text \<open>
  Claim C7. Calling \<open>forward\<close> leaves the module as it was: its parameter tensors
  and all its configuration fields, the training flag included, are those of before
  the call, for each of the four classes and for every input.
\<close>

theorem forward_leaves_module_unchanged: "fst (snd (forward m x g)) = m"
proof (cases m)
  case (EmbeddingM self)
  then show ?thesis by (simp add: Embedding_forward_def)
next
  case (DropoutM self)
  then show ?thesis
    by (simp add: Dropout_forward_def split: sum.splits prod.splits)
next
  case (LinearM self)
  then show ?thesis by (simp add: Linear_forward_def)
next
  case (LayerNorm1dM self)
  then show ?thesis by (simp add: LayerNorm1d_forward_def)
qed

theorem forward_leaves_module_unchanged_witness:
  "fst (snd (forward (DropoutM \<lparr>training = True, p_dropout = 1 / 2\<rparr> :: unit module)
               \<lparr>shape = [2], storage = [1, 1]\<rparr>
               \<lparr>normal_stream = \<lambda>i. 0, uniform_stream = \<lambda>i. if i = 0 then 1 / 4 else 3 / 4\<rparr>))
     = DropoutM \<lparr>training = True, p_dropout = 1 / 2\<rparr>
 \<and> fst (snd (forward (LinearM \<lparr>training = True, out_size = 1, backend_Linear = (), in_size = 2,
                  use_bias = True, weights_Linear = \<lparr>shape = [2, 1], storage = [2, 3]\<rparr>,
                  bias_Linear = Some \<lparr>shape = [1], storage = [10]\<rparr>\<rparr>)
               \<lparr>shape = [1, 2], storage = [5, 7]\<rparr>
               \<lparr>normal_stream = \<lambda>i. 0, uniform_stream = \<lambda>i. if i = 0 then 1 / 4 else 3 / 4\<rparr>))
     = LinearM \<lparr>training = True, out_size = 1, backend_Linear = (), in_size = 2,
                  use_bias = True, weights_Linear = \<lparr>shape = [2, 1], storage = [2, 3]\<rparr>,
                  bias_Linear = Some \<lparr>shape = [1], storage = [10]\<rparr>\<rparr>"
  by (intro conjI forward_leaves_module_unchanged)

text \<open>
  Claim C8, as amended. On a documented input, \<open>forward\<close> returns a tensor and raises
  nothing, for each of the four classes, provided that the \<open>p_dropout\<close> of a training
  \<open>Dropout\<close> is a probability.
\<close>

theorem forward_returns_on_documented_input:
  assumes "documented_input m x"
  shows "\<exists>out. fst (forward m x g) = Inr out"
proof (cases m)
  case (EmbeddingM self)
  with assms have inv: "Embedding_inv self" and vx: "valid_tensor x"
    and len: "length (shape x) = 2"
    and rng: "\<And>v. v \<in> set (storage x) \<Longrightarrow> 0 \<le> v \<and> v < real (num_embeddings self)"
    by (auto simp: list_all_iff)
  from len obtain bs seq_len where sh: "shape x = [bs, seq_len]"
    by (rule matrix_shape)
  show ?thesis
    using Embedding_forward_lookup [OF inv sh vx rng] EmbeddingM by simp
next
  case (DropoutM self)
  show ?thesis
  proof (cases "training self \<and> p_dropout self \<noteq> 0")
    case False
    then show ?thesis
      using DropoutM by (auto simp: Dropout_forward_def)
  next
    case True
    with assms DropoutM have "training self" "p_dropout self \<noteq> 0" "0 \<le> p_dropout self"
      "p_dropout self \<le> 1" "valid_tensor x"
      by auto
    then show ?thesis
      using DropoutM by (simp add: Dropout_forward_masks)
  qed
next
  case (LinearM self)
  with assms have inv: "Linear_inv self" and len: "length (shape x) = 2"
    and cols: "shape x ! 1 = in_size self"
    by auto
  from len obtain n k where "shape x = [n, k]" "shape x ! 1 = k"
    by (rule matrix_shape)
  with cols have "shape x = [n, in_size self]"
    by simp
  with inv show ?thesis
    using LinearM by (simp add: Linear_forward_returns)
next
  case (LayerNorm1dM self)
  with assms have inv: "LayerNorm1d_inv self" and len: "length (shape x) = 2"
    and cols: "shape x ! 1 = dim self"
    by auto
  from len obtain bs k where "shape x = [bs, k]" "shape x ! 1 = k"
    by (rule matrix_shape)
  with cols have "shape x = [bs, dim self]"
    by simp
  with inv show ?thesis
    using LayerNorm1dM by (simp add: LayerNorm1d_forward_cells)
qed

theorem forward_returns_on_documented_input_witness:
  "documented_input
     (EmbeddingM \<lparr>training = True, backend_Embedding = (), num_embeddings = 2, embedding_dim = 2,
        weights_Embedding = \<lparr>shape = [2, 2], storage = [1, 2, 3, 4]\<rparr>\<rparr>)
     \<lparr>shape = [1, 2], storage = [1, 0]\<rparr>
 \<and> (\<exists>out. fst (forward
        (EmbeddingM \<lparr>training = True, backend_Embedding = (), num_embeddings = 2, embedding_dim = 2,
           weights_Embedding = \<lparr>shape = [2, 2], storage = [1, 2, 3, 4]\<rparr>\<rparr>)
        \<lparr>shape = [1, 2], storage = [1, 0]\<rparr>
        \<lparr>normal_stream = \<lambda>i. 0, uniform_stream = \<lambda>i. if i = 0 then 1 / 4 else 3 / 4\<rparr>) = Inr out)
 \<and> documented_input (DropoutM \<lparr>training = True, p_dropout = 1 / 2\<rparr> :: unit module)
     \<lparr>shape = [2], storage = [1, 1]\<rparr>
 \<and> (\<exists>out. fst (forward (DropoutM \<lparr>training = True, p_dropout = 1 / 2\<rparr> :: unit module)
        \<lparr>shape = [2], storage = [1, 1]\<rparr>
        \<lparr>normal_stream = \<lambda>i. 0, uniform_stream = \<lambda>i. if i = 0 then 1 / 4 else 3 / 4\<rparr>) = Inr out)
 \<and> documented_input
     (LinearM \<lparr>training = True, out_size = 1, backend_Linear = (), in_size = 2, use_bias = True,
        weights_Linear = \<lparr>shape = [2, 1], storage = [2, 3]\<rparr>,
        bias_Linear = Some \<lparr>shape = [1], storage = [10]\<rparr>\<rparr>)
     \<lparr>shape = [1, 2], storage = [5, 7]\<rparr>
 \<and> (\<exists>out. fst (forward
        (LinearM \<lparr>training = True, out_size = 1, backend_Linear = (), in_size = 2, use_bias = True,
           weights_Linear = \<lparr>shape = [2, 1], storage = [2, 3]\<rparr>,
           bias_Linear = Some \<lparr>shape = [1], storage = [10]\<rparr>\<rparr>)
        \<lparr>shape = [1, 2], storage = [5, 7]\<rparr>
        \<lparr>normal_stream = \<lambda>i. 0, uniform_stream = \<lambda>i. if i = 0 then 1 / 4 else 3 / 4\<rparr>) = Inr out)
 \<and> documented_input
     (LayerNorm1dM \<lparr>training = True, dim = 2, eps = 3, backend_LayerNorm1d = (),
        weights_LayerNorm1d = \<lparr>shape = [2], storage = [1, 1]\<rparr>,
        bias_LayerNorm1d = \<lparr>shape = [2], storage = [0, 0]\<rparr>\<rparr>)
     \<lparr>shape = [1, 2], storage = [1, 3]\<rparr>
 \<and> (\<exists>out. fst (forward
        (LayerNorm1dM \<lparr>training = True, dim = 2, eps = 3, backend_LayerNorm1d = (),
           weights_LayerNorm1d = \<lparr>shape = [2], storage = [1, 1]\<rparr>,
           bias_LayerNorm1d = \<lparr>shape = [2], storage = [0, 0]\<rparr>\<rparr>)
        \<lparr>shape = [1, 2], storage = [1, 3]\<rparr>
        \<lparr>normal_stream = \<lambda>i. 0, uniform_stream = \<lambda>i. if i = 0 then 1 / 4 else 3 / 4\<rparr>) = Inr out)"
proof -
  let ?e = "EmbeddingM \<lparr>training = True, backend_Embedding = (), num_embeddings = 2, embedding_dim = 2,
        weights_Embedding = \<lparr>shape = [2, 2], storage = [1, 2, 3, 4]\<rparr>\<rparr>"
  let ?d = "DropoutM \<lparr>training = True, p_dropout = 1 / 2\<rparr> :: unit module"
  let ?l = "LinearM \<lparr>training = True, out_size = 1, backend_Linear = (), in_size = 2, use_bias = True,
        weights_Linear = \<lparr>shape = [2, 1], storage = [2, 3]\<rparr>,
        bias_Linear = Some \<lparr>shape = [1], storage = [10]\<rparr>\<rparr>"
  let ?n = "LayerNorm1dM \<lparr>training = True, dim = 2, eps = 3, backend_LayerNorm1d = (),
        weights_LayerNorm1d = \<lparr>shape = [2], storage = [1, 1]\<rparr>,
        bias_LayerNorm1d = \<lparr>shape = [2], storage = [0, 0]\<rparr>\<rparr>"
  have e: "documented_input ?e \<lparr>shape = [1, 2], storage = [1, 0]\<rparr>"
    by (simp add: Embedding_inv_def valid_tensor_def)
  have d: "documented_input ?d \<lparr>shape = [2], storage = [1, 1]\<rparr>"
    by (simp add: valid_tensor_def)
  have l: "documented_input ?l \<lparr>shape = [1, 2], storage = [5, 7]\<rparr>"
    by (simp add: Linear_inv_def valid_tensor_def)
  have n: "documented_input ?n \<lparr>shape = [1, 2], storage = [1, 3]\<rparr>"
    by (simp add: LayerNorm1d_inv_def valid_tensor_def)
  show ?thesis
    by (intro conjI e d l n forward_returns_on_documented_input [OF e]
        forward_returns_on_documented_input [OF d] forward_returns_on_documented_input [OF l]
        forward_returns_on_documented_input [OF n])
qed

text \<open>
  Claim C8 as stated fails: the constructor of \<open>Dropout\<close> accepts any number, and a
  training \<open>Dropout\<close> with \<open>p_dropout = 1.5\<close> (or \<open>-0.5\<close>) asks numpy for a
  binomial sample with probability \<open>-0.5\<close> (or \<open>1.5\<close>), which raises
  \<open>ValueError\<close>, whatever the shape of the input.
\<close>

theorem Dropout_forward_raises_outside_probabilities:
  "fst (forward (DropoutM \<lparr>training = True, p_dropout = 3 / 2\<rparr> :: unit module)
         \<lparr>shape = [2], storage = [1, 1]\<rparr>
         \<lparr>normal_stream = \<lambda>i. 0, uniform_stream = \<lambda>i. if i = 0 then 1 / 4 else 3 / 4\<rparr>)
     = Inl ValueError
 \<and> fst (forward (DropoutM \<lparr>training = True, p_dropout = - 1 / 2\<rparr> :: unit module)
         \<lparr>shape = [2], storage = [1, 1]\<rparr>
         \<lparr>normal_stream = \<lambda>i. 0, uniform_stream = \<lambda>i. if i = 0 then 1 / 4 else 3 / 4\<rparr>)
     = Inl ValueError"
  by (simp add: Dropout_forward_def binomial_def)

text \<open>
  Claim C9, as amended. For \<open>Embedding\<close>, \<open>Linear\<close> and \<open>LayerNorm1d\<close>, and for a
  \<open>Dropout\<close> that is not training or has \<open>p_dropout = 0\<close>, the output of \<open>forward\<close>
  is determined by the module and the input: two calls give equal outputs whatever the
  states of the random generator are.
\<close>

theorem forward_deterministic_without_mask:
  assumes "\<not> draws_mask m"
  shows "fst (forward m x g) = fst (forward m x g')"
  using assms by (cases m) (auto simp: Dropout_forward_def)

theorem forward_deterministic_without_mask_witness:
  "draws_mask (LinearM \<lparr>training = True, out_size = 1, backend_Linear = (), in_size = 2,
                  use_bias = True, weights_Linear = \<lparr>shape = [2, 1], storage = [2, 3]\<rparr>,
                  bias_Linear = Some \<lparr>shape = [1], storage = [10]\<rparr>\<rparr>) = False
 \<and> fst (forward (LinearM \<lparr>training = True, out_size = 1, backend_Linear = (), in_size = 2,
                  use_bias = True, weights_Linear = \<lparr>shape = [2, 1], storage = [2, 3]\<rparr>,
                  bias_Linear = Some \<lparr>shape = [1], storage = [10]\<rparr>\<rparr>)
          \<lparr>shape = [1, 2], storage = [5, 7]\<rparr>
          \<lparr>normal_stream = \<lambda>i. 0, uniform_stream = \<lambda>i. 1 / 4\<rparr>)
   = fst (forward (LinearM \<lparr>training = True, out_size = 1, backend_Linear = (), in_size = 2,
                  use_bias = True, weights_Linear = \<lparr>shape = [2, 1], storage = [2, 3]\<rparr>,
                  bias_Linear = Some \<lparr>shape = [1], storage = [10]\<rparr>\<rparr>)
          \<lparr>shape = [1, 2], storage = [5, 7]\<rparr>
          \<lparr>normal_stream = \<lambda>i. 1, uniform_stream = \<lambda>i. 3 / 4\<rparr>)
 \<and> draws_mask (DropoutM \<lparr>training = False, p_dropout = 1 / 2\<rparr> :: unit module) = False
 \<and> fst (forward (DropoutM \<lparr>training = False, p_dropout = 1 / 2\<rparr> :: unit module)
          \<lparr>shape = [2], storage = [1, 1]\<rparr>
          \<lparr>normal_stream = \<lambda>i. 0, uniform_stream = \<lambda>i. 1 / 4\<rparr>)
   = fst (forward (DropoutM \<lparr>training = False, p_dropout = 1 / 2\<rparr> :: unit module)
          \<lparr>shape = [2], storage = [1, 1]\<rparr>
          \<lparr>normal_stream = \<lambda>i. 1, uniform_stream = \<lambda>i. 3 / 4\<rparr>)"
proof -
  let ?l = "LinearM \<lparr>training = True, out_size = 1, backend_Linear = (), in_size = 2,
                  use_bias = True, weights_Linear = \<lparr>shape = [2, 1], storage = [2, 3]\<rparr>,
                  bias_Linear = Some \<lparr>shape = [1], storage = [10]\<rparr>\<rparr>"
  let ?d = "DropoutM \<lparr>training = False, p_dropout = 1 / 2\<rparr> :: unit module"
  let ?x = "\<lparr>shape = [1, 2], storage = [5, 7]\<rparr>" and ?y = "\<lparr>shape = [2], storage = [1, 1]\<rparr>"
  let ?g = "\<lparr>normal_stream = \<lambda>i. 0, uniform_stream = \<lambda>i. 1 / 4\<rparr>"
  let ?g' = "\<lparr>normal_stream = \<lambda>i. 1, uniform_stream = \<lambda>i. 3 / 4\<rparr>"
  have a: "\<not> draws_mask ?l" and b: "\<not> draws_mask ?d"
    by simp_all
  have c: "fst (forward ?l ?x ?g) = fst (forward ?l ?x ?g')"
    using a by (rule forward_deterministic_without_mask)
  have d: "fst (forward ?d ?y ?g) = fst (forward ?d ?y ?g')"
    using b by (rule forward_deterministic_without_mask)
  have a': "draws_mask ?l = False" and b': "draws_mask ?d = False"
    by simp_all
  show ?thesis
    by (intro conjI a' b' c d)
qed

text \<open>
  Claim C9 as stated fails for a training \<open>Dropout\<close>: two successive calls on the same
  module and the same input draw different masks from the random generator and return
  different outputs.
\<close>

theorem Dropout_forward_two_calls_differ:
  "fst (forward (DropoutM \<lparr>training = True, p_dropout = 1 / 2\<rparr> :: unit module)
         \<lparr>shape = [2], storage = [1, 1]\<rparr>
         \<lparr>normal_stream = \<lambda>i. 0, uniform_stream = \<lambda>i. if i = 0 then 1 / 4 else 3 / 4\<rparr>)
     = Inr \<lparr>shape = [2], storage = [2, 0]\<rparr>
 \<and> fst (snd (forward (DropoutM \<lparr>training = True, p_dropout = 1 / 2\<rparr> :: unit module)
         \<lparr>shape = [2], storage = [1, 1]\<rparr>
         \<lparr>normal_stream = \<lambda>i. 0, uniform_stream = \<lambda>i. if i = 0 then 1 / 4 else 3 / 4\<rparr>))
     = DropoutM \<lparr>training = True, p_dropout = 1 / 2\<rparr>
 \<and> fst (forward (DropoutM \<lparr>training = True, p_dropout = 1 / 2\<rparr> :: unit module)
         \<lparr>shape = [2], storage = [1, 1]\<rparr>
         (snd (snd (forward (DropoutM \<lparr>training = True, p_dropout = 1 / 2\<rparr> :: unit module)
            \<lparr>shape = [2], storage = [1, 1]\<rparr>
            \<lparr>normal_stream = \<lambda>i. 0, uniform_stream = \<lambda>i. if i = 0 then 1 / 4 else 3 / 4\<rparr>))))
     = Inr \<lparr>shape = [2], storage = [0, 0]\<rparr>
 \<and> fst (forward (DropoutM \<lparr>training = True, p_dropout = 1 / 2\<rparr> :: unit module)
         \<lparr>shape = [2], storage = [1, 1]\<rparr>
         \<lparr>normal_stream = \<lambda>i. 0, uniform_stream = \<lambda>i. if i = 0 then 1 / 4 else 3 / 4\<rparr>)
     \<noteq> fst (forward (DropoutM \<lparr>training = True, p_dropout = 1 / 2\<rparr> :: unit module)
         \<lparr>shape = [2], storage = [1, 1]\<rparr>
         (snd (snd (forward (DropoutM \<lparr>training = True, p_dropout = 1 / 2\<rparr> :: unit module)
            \<lparr>shape = [2], storage = [1, 1]\<rparr>
            \<lparr>normal_stream = \<lambda>i. 0, uniform_stream = \<lambda>i. if i = 0 then 1 / 4 else 3 / 4\<rparr>))))"
proof -
  let ?d = "\<lparr>training = True, p_dropout = 1 / 2\<rparr>"
  let ?x = "\<lparr>shape = [2], storage = [1, 1]\<rparr>"
  have v: "valid_tensor ?x"
    by (simp add: valid_tensor_def)
  have h: "training ?d" "p_dropout ?d \<noteq> 0" "0 \<le> p_dropout ?d" "p_dropout ?d \<le> 1"
    by simp_all
  show ?thesis
    unfolding forward.simps Dropout_forward_masks [OF h v] fst_conv snd_conv
    by (simp add: numeral_2_eq_2)
qed

end
